theory Spec2Isabelle
  imports Main "HOL-Library.Word" "HOL-Library.AList" "HOL-Library.Sublist"
    "HOL-Library.Char_ord" "HOL-Library.List_Lexorder"
begin

section \<open>Strings\<close>

text \<open>
  A JavaScript string is modelled as a \<open>string\<close>: the list of its code units, each
  below 256. The two bracket characters of the command line are the apostrophe
  (code 0x27) and the double quote (code 0x22).
\<close>

definition charIsBracket :: "char \<Rightarrow> bool" where
  "charIsBracket charSymbol = (charSymbol \<in> set [CHR 0x27, CHR 0x22])"

text \<open>\<open>String.prototype.trim\<close>: white space and line terminators go from both ends.\<close>

definition isWhiteSpace :: "char \<Rightarrow> bool" where
  "isWhiteSpace c = (c \<in> set [CHR 0x09, CHR 0x0A, CHR 0x0B, CHR 0x0C, CHR 0x0D, CHR 0x20, CHR 0xA0])"

definition trim :: "string \<Rightarrow> string" where
  "trim s = rev (dropWhile isWhiteSpace (rev (dropWhile isWhiteSpace s)))"

definition lowerChar :: "char \<Rightarrow> char" where
  "lowerChar c =
     (let n = (of_char c :: nat)
      in if (65 \<le> n \<and> n \<le> 90) \<or> (192 \<le> n \<and> n \<le> 222 \<and> n \<noteq> 215) then char_of (n + 32) else c)"

definition toLowerCase :: "string \<Rightarrow> string" where
  "toLowerCase s = map lowerChar s"

definition startsWith :: "string \<Rightarrow> string \<Rightarrow> bool" where
  "startsWith s searchString = prefix searchString s"

section \<open>Paths (the POSIX half of \<open>node:path\<close>)\<close>

definition path_isAbsolute :: "string \<Rightarrow> bool" where
  "path_isAbsolute p = (p \<noteq> [] \<and> hd p = CHR ''/'')"

fun splitSlash :: "string \<Rightarrow> string list" where
  "splitSlash [] = [[]]"
| "splitSlash (c # cs) =
     (if c = CHR ''/'' then [] # splitSlash cs
      else case splitSlash cs of [] \<Rightarrow> [[c]] | seg # segs \<Rightarrow> (c # seg) # segs)"

fun joinSlash :: "string list \<Rightarrow> string" where
  "joinSlash [] = []"
| "joinSlash [seg] = seg"
| "joinSlash (seg # next # segs) = seg @ CHR ''/'' # joinSlash (next # segs)"

text \<open>
  \<open>normalizeString\<close> of \<open>node:path\<close>, read segment by segment: empty segments and
  \<open>.\<close> vanish; \<open>..\<close> removes the segment before it unless there is none or it is
  \<open>..\<close> itself, in which case it is kept only when \<open>allowAboveRoot\<close>. \<open>res\<close> holds
  the segments kept so far, the last one first.
\<close>

fun normalizeString :: "bool \<Rightarrow> string list \<Rightarrow> string list \<Rightarrow> string list" where
  "normalizeString allowAboveRoot [] res = rev res"
| "normalizeString allowAboveRoot (seg # segs) res =
     (if seg = [] \<or> seg = ''.'' then normalizeString allowAboveRoot segs res
      else if seg = ''..'' then
        (if res \<noteq> [] \<and> hd res \<noteq> ''..'' then normalizeString allowAboveRoot segs (tl res)
         else if allowAboveRoot then normalizeString allowAboveRoot segs (''..'' # res)
         else normalizeString allowAboveRoot segs res)
      else normalizeString allowAboveRoot segs (seg # res))"

text \<open>
  \<open>path.resolve\<close>: the arguments are read from the right, then the working directory of
  the process, until an absolute one is found; empty arguments are skipped.
\<close>

fun resolveLoop :: "string list \<Rightarrow> string \<Rightarrow> string \<times> bool" where
  "resolveLoop [] resolvedPath = (resolvedPath, False)"
| "resolveLoop (p # ps) resolvedPath =
     (if p = [] then resolveLoop ps resolvedPath
      else if hd p = CHR ''/'' then (p @ ''/'' @ resolvedPath, True)
      else resolveLoop ps (p @ ''/'' @ resolvedPath))"

definition path_resolve :: "string \<Rightarrow> string \<Rightarrow> string \<Rightarrow> string" where
  "path_resolve processCwd from to =
     (case resolveLoop [to, from, processCwd] [] of
        (resolvedPath, resolvedAbsolute) \<Rightarrow>
          let normalized = joinSlash (normalizeString (\<not> resolvedAbsolute) (splitSlash resolvedPath) [])
          in if resolvedAbsolute then CHR ''/'' # normalized
             else if normalized \<noteq> [] then normalized else ''.'')"

text \<open>
  \<open>path.dirname\<close>: trailing slashes are skipped, then everything from the last slash
  on is cut; the character at index 0 is never cut.
\<close>

definition path_dirname :: "string \<Rightarrow> string" where
  "path_dirname p =
     (if p = [] then ''.''
      else let hasRoot = (hd p = CHR ''/'');
               r = dropWhile (\<lambda>c. c \<noteq> CHR ''/'') (dropWhile (\<lambda>c. c = CHR ''/'') (rev (tl p)))
           in if r = [] then (if hasRoot then ''/'' else ''.'')
              else if hasRoot \<and> length r = 1 then ''//''
              else hd p # rev (tl r))"

definition path_normalize :: "string \<Rightarrow> string" where
  "path_normalize p =
     (if p = [] then ''.''
      else let isAbsolute = (hd p = CHR ''/'');
               trailingSeparator = (last p = CHR ''/'');
               normalized = joinSlash (normalizeString (\<not> isAbsolute) (splitSlash p) [])
           in if normalized = [] then
                (if isAbsolute then ''/'' else if trailingSeparator then ''./'' else ''.'')
              else let withSeparator = (if trailingSeparator then normalized @ ''/'' else normalized)
                   in if isAbsolute then CHR ''/'' # withSeparator else withSeparator)"

definition path_join :: "string \<Rightarrow> string \<Rightarrow> string" where
  "path_join a b =
     (let joined = (if a = [] then b else if b = [] then a else a @ ''/'' @ b)
      in if joined = [] then ''.'' else path_normalize joined)"

section \<open>The file system\<close>

text \<open>
  The files and directories the session can reach: an association list from absolute,
  normalised paths to nodes. A path is looked up as it is written. There are no
  permissions and no symbolic links: the failures of a system call are the ones the
  kinds of the nodes decide.
\<close>

type_synonym byte = "8 word"

datatype node = File "byte list" | Directory

type_synonym filesystem = "(string \<times> node) list"

datatype errno = ENOENT | EISDIR | ENOTDIR

text \<open>
  What the handlers throw. The first seven are the \<open>Error\<close>s of \<open>#ifFileOK\<close> and
  \<open>#ifAbsolutePathOK\<close>, named after the error kinds of the specification;
  \<open>SystemError\<close> is a failed system call (code, call, path), \<open>DecompressionFailed\<close>
  the error of the Brotli decompressor.
\<close>

datatype error =
    InvalidArgumentFile
  | InvalidArgumentDirectory
  | NotAbsolute string
  | NotFoundFile string
  | AlreadyExists string
  | NotFoundDirectory string
  | OutsideRoot
  | SystemError errno string string
  | DecompressionFailed

definition errnoText :: "errno \<Rightarrow> string" where
  "errnoText e = (case e of
       ENOENT \<Rightarrow> ''ENOENT: no such file or directory''
     | EISDIR \<Rightarrow> ''EISDIR: illegal operation on a directory''
     | ENOTDIR \<Rightarrow> ''ENOTDIR: not a directory'')"

definition message :: "error \<Rightarrow> string" where
  "message e = (case e of
       InvalidArgumentFile \<Rightarrow> ''Path to file is not set''
     | InvalidArgumentDirectory \<Rightarrow> ''Path to directory is not set''
     | NotAbsolute p \<Rightarrow> ''Path '' @ [CHR 0x27] @ p @ [CHR 0x27] @ '' is not absolute''
     | NotFoundFile p \<Rightarrow> ''File '' @ [CHR 0x27] @ p @ [CHR 0x27] @ '' does not exist''
     | AlreadyExists p \<Rightarrow> ''File '' @ [CHR 0x27] @ p @ [CHR 0x27] @ '' already exists''
     | NotFoundDirectory p \<Rightarrow> ''Directory '' @ [CHR 0x27] @ p @ [CHR 0x27] @ '' does not exist''
     | OutsideRoot \<Rightarrow> ''You can'' @ [CHR 0x27] @ ''t go upper than root directory''
     | SystemError code call p \<Rightarrow>
         errnoText code @ '', '' @ call @ '' '' @ [CHR 0x27] @ p @ [CHR 0x27]
     | DecompressionFailed \<Rightarrow> ''Decompression failed'')"

definition stat :: "filesystem \<Rightarrow> string \<Rightarrow> node option" where
  "stat fs p = map_of fs p"

text \<open>Opening a path for writing creates the file or empties it.\<close>

definition openForWriting :: "filesystem \<Rightarrow> string \<Rightarrow> error + filesystem" where
  "openForWriting fs p =
     (if stat fs p = Some Directory then Inl (SystemError EISDIR ''open'' p)
      else case stat fs (path_dirname p) of
             None \<Rightarrow> Inl (SystemError ENOENT ''open'' p)
           | Some (File _) \<Rightarrow> Inl (SystemError ENOTDIR ''open'' p)
           | Some Directory \<Rightarrow> Inr (AList.update p (File []) fs))"

text \<open>
  \<open>fsp.readdir\<close> answers with the names of the entries in ascending order: the
  \<open>scandir\<close> underneath sorts them with \<open>strcmp\<close>, character code by character code,
  which is the order of \<open>string\<close>.
\<close>

definition readdir :: "filesystem \<Rightarrow> string \<Rightarrow> error + string list" where
  "readdir fs dir =
     (case stat fs dir of
        None \<Rightarrow> Inl (SystemError ENOENT ''scandir'' dir)
      | Some (File _) \<Rightarrow> Inl (SystemError ENOTDIR ''scandir'' dir)
      | Some Directory \<Rightarrow>
          Inr (sort (map (\<lambda>(p, n). last (splitSlash p))
                       (filter (\<lambda>(p, n). p \<noteq> dir \<and> path_dirname p = dir) fs))))"

definition unlink :: "filesystem \<Rightarrow> string \<Rightarrow> error + filesystem" where
  "unlink fs p =
     (case stat fs p of
        None \<Rightarrow> Inl (SystemError ENOENT ''unlink'' p)
      | Some Directory \<Rightarrow> Inl (SystemError EISDIR ''unlink'' p)
      | Some (File _) \<Rightarrow> Inr (AList.delete p fs))"

text \<open>
  Only the renaming of a regular file is modelled, the one case \<open>#renameFile\<close> reaches
  once \<open>#ifFileOK\<close> has passed; any other source is reported as missing.
\<close>

definition rename :: "filesystem \<Rightarrow> string \<Rightarrow> string \<Rightarrow> error + filesystem" where
  "rename fs oldPath newPath =
     (case stat fs oldPath of
        Some (File content) \<Rightarrow>
          (if stat fs newPath = Some Directory then Inl (SystemError EISDIR ''rename'' oldPath)
           else case stat fs (path_dirname newPath) of
                  None \<Rightarrow> Inl (SystemError ENOENT ''rename'' oldPath)
                | Some (File _) \<Rightarrow> Inl (SystemError ENOTDIR ''rename'' oldPath)
                | Some Directory \<Rightarrow>
                    (if newPath = oldPath then Inr fs
                     else Inr (AList.update newPath (File content) (AList.delete oldPath fs))))
      | _ \<Rightarrow> Inl (SystemError ENOENT ''rename'' oldPath))"

section \<open>Reading a file as UTF-8 text, writing text as UTF-8\<close>

text \<open>
  A read stream opened with the encoding \<open>utf-8\<close> hands out text: the bytes decoded,
  every ill-formed sequence replaced by U+FFFD. The text is the list of its code points.
  \<open>utf8_decode_loop\<close> carries the code point under construction, the number of
  continuation bytes still needed and the bounds of the next continuation byte.
\<close>

fun utf8_decode_loop :: "byte list \<Rightarrow> nat \<Rightarrow> nat \<Rightarrow> nat \<Rightarrow> nat \<Rightarrow> nat list" where
  "utf8_decode_loop [] cp needed lower upper = (if needed \<noteq> 0 then [0xFFFD] else [])"
| "utf8_decode_loop (b # bs) cp needed lower upper =
     (let n = unat b in
      if needed = 0 then
        (if n \<le> 0x7F then n # utf8_decode_loop bs 0 0 0x80 0xBF
         else if 0xC2 \<le> n \<and> n \<le> 0xDF then utf8_decode_loop bs (n - 0xC0) 1 0x80 0xBF
         else if 0xE0 \<le> n \<and> n \<le> 0xEF then
           utf8_decode_loop bs (n - 0xE0) 2 (if n = 0xE0 then 0xA0 else 0x80)
             (if n = 0xED then 0x9F else 0xBF)
         else if 0xF0 \<le> n \<and> n \<le> 0xF4 then
           utf8_decode_loop bs (n - 0xF0) 3 (if n = 0xF0 then 0x90 else 0x80)
             (if n = 0xF4 then 0x8F else 0xBF)
         else 0xFFFD # utf8_decode_loop bs 0 0 0x80 0xBF)
      else if n < lower \<or> upper < n then 0xFFFD # utf8_decode_loop (b # bs) 0 0 0x80 0xBF
      else if needed = 1 then (cp * 64 + (n - 0x80)) # utf8_decode_loop bs 0 0 0x80 0xBF
      else utf8_decode_loop bs (cp * 64 + (n - 0x80)) (needed - 1) 0x80 0xBF)"

definition utf8_decode :: "byte list \<Rightarrow> nat list" where
  "utf8_decode bs = utf8_decode_loop bs 0 0 0x80 0xBF"

definition utf8_encode_char :: "nat \<Rightarrow> byte list" where
  "utf8_encode_char c =
     (let c = (if (0xD800 \<le> c \<and> c \<le> 0xDFFF) \<or> 0x10FFFF < c then 0xFFFD else c) in
      if c < 0x80 then [of_nat c]
      else if c < 0x800 then [of_nat (0xC0 + c div 64), of_nat (0x80 + c mod 64)]
      else if c < 0x10000 then
        [of_nat (0xE0 + c div 4096), of_nat (0x80 + c div 64 mod 64), of_nat (0x80 + c mod 64)]
      else [of_nat (0xF0 + c div 262144), of_nat (0x80 + c div 4096 mod 64),
            of_nat (0x80 + c div 64 mod 64), of_nat (0x80 + c mod 64)])"

definition utf8_encode :: "nat list \<Rightarrow> byte list" where
  "utf8_encode cps = concat (map utf8_encode_char cps)"

text \<open>The Unicode scalar values: the code points that are no surrogates.\<close>

definition isScalarValue :: "nat \<Rightarrow> bool" where
  "isScalarValue c = (c < 0xD800 \<or> (0xE000 \<le> c \<and> c \<le> 0x10FFFF))"

section \<open>The command line parser\<close>

text \<open>
  The loop of \<open>#getCommandWithParameters\<close>, over the characters still to read, with
  the loop's three variables \<open>params\<close>, \<open>tmp\<close> and \<open>paramInBracketsStarted\<close>.
\<close>

fun parseLoop :: "string \<Rightarrow> string list \<Rightarrow> string \<Rightarrow> bool \<Rightarrow> string list \<times> string" where
  "parseLoop [] params tmp paramInBracketsStarted = (params, tmp)"
| "parseLoop (nextSymbol # rest) params tmp paramInBracketsStarted =
     (let started = (if charIsBracket nextSymbol then \<not> paramInBracketsStarted
                     else paramInBracketsStarted)
      in if nextSymbol \<noteq> CHR '' '' then parseLoop rest params (tmp @ [nextSymbol]) started
         else if started then parseLoop rest params (tmp @ [nextSymbol]) started
         else if tmp \<noteq> [] then parseLoop rest (params @ [tmp]) [] started
         else parseLoop rest params tmp started)"

definition getCommandWithParameters :: "string \<Rightarrow> string list" where
  "getCommandWithParameters input =
     (if input = [] then []
      else case parseLoop (trim input) [] [] False of
             (params, tmp) \<Rightarrow> if tmp \<noteq> [] then params @ [tmp] else params)"

text \<open>\<open>#unbraketString\<close>; \<open>res.slice(1)\<close> is \<open>tl\<close>, \<open>res.slice(0, res.length - 1)\<close> is \<open>butlast\<close>.\<close>

definition unbraketString :: "string \<Rightarrow> string" where
  "unbraketString str =
     (if str = [] then str
      else if \<not> charIsBracket (hd str) then str
      else if hd str \<noteq> last str then str
      else let res = tl str in
           if res = [] then res
           else butlast res)"

section \<open>The session: state, output, the process around it\<close>

text \<open>\<open>OUTPUT_MESSAGE_TYPES\<close>: \<open>none\<close>, \<open>error\<close> and \<open>currDirMessage\<close>.\<close>

datatype messageType = MsgNone | MsgError | MsgCurrDir

text \<open>
  What reaches the terminal, in order: a string handed to \<open>rl.write\<close>, the text of a
  file handed to \<open>rl.write\<close> (its code points), or a table printed by
  \<open>console.table\<close> (the columns asked for, then one row of cells per object).
\<close>

datatype printed =
    Written string
  | WrittenText "nat list"
  | Table "string list" "string list list"

text \<open>
  How the process ended: \<open>process.exit(0)\<close>, run by the listener of the \<open>close\<close>
  event, or an exception nobody caught. A stream that emits \<open>error\<close> while no listener
  for \<open>error\<close> is registered on it raises such an exception.
\<close>

datatype exitStatus = ExitSuccess | UncaughtException error

text \<open>
  What the program takes from its host and its libraries: the working directory of the
  process, the Brotli codec of \<open>node:zlib\<close> (the decompressor fails on bytes that are
  no Brotli stream), the SHA-256 digest in hexadecimal, and the answers of \<open>node:os\<close>.
\<close>

record host =
  processCwd :: string
  brotliCompress :: "byte list \<Rightarrow> byte list"
  brotliDecompress :: "byte list \<Rightarrow> byte list option"
  sha256hex :: "byte list \<Rightarrow> string"
  osEOL :: string
  osCpus :: "(string \<times> string) list"
  osArch :: string

text \<open>
  The private fields of \<open>FileManager\<close>, with the file system, the terminal and the
  fate of the process. Commands run one after the other: a line is handled to its end
  before the next one is read.
\<close>

record state =
  rootWorkDir :: string
  currentWorkDir :: string
  ignoreStdin :: bool
  userName :: string
  files :: filesystem
  terminal :: "printed list"
  exited :: "exitStatus option"

text \<open>The constructor: both directories start as the directory given.\<close>

definition newFileManager :: "string \<Rightarrow> string \<Rightarrow> filesystem \<Rightarrow> state" where
  "newFileManager dir user fs =
     \<lparr>rootWorkDir = dir, currentWorkDir = dir, ignoreStdin = False, userName = user,
      files = fs, terminal = [], exited = None\<rparr>"

text \<open>What a handler's promise comes to: it returns, it throws, or the process ends.\<close>

datatype outcome = Returned state | Threw error state | Terminated state

text \<open>The state a handler leaves behind, however it ends.\<close>

fun outcomeState :: "outcome \<Rightarrow> state" where
  "outcomeState (Returned st) = st"
| "outcomeState (Threw e st) = st"
| "outcomeState (Terminated st) = st"

definition COMMANDS_goUpper :: string where "COMMANDS_goUpper = ''up''"
definition COMMANDS_exit :: string where "COMMANDS_exit = ''.exit''"
definition COMMANDS_changeDir :: string where "COMMANDS_changeDir = ''cd''"
definition COMMANDS_listDir :: string where "COMMANDS_listDir = ''ls''"
definition COMMANDS_printFileContent :: string where "COMMANDS_printFileContent = ''cat''"
definition COMMANDS_createEmptyFile :: string where "COMMANDS_createEmptyFile = ''add''"
definition COMMANDS_renameFile :: string where "COMMANDS_renameFile = ''rn''"
definition COMMANDS_copyFile :: string where "COMMANDS_copyFile = ''cp''"
definition COMMANDS_moveFile :: string where "COMMANDS_moveFile = ''mv''"
definition COMMANDS_deleteFile :: string where "COMMANDS_deleteFile = ''rm''"
definition COMMANDS_os :: string where "COMMANDS_os = ''os''"
definition COMMANDS_getFileHash :: string where "COMMANDS_getFileHash = ''hash''"
definition COMMANDS_compressFile :: string where "COMMANDS_compressFile = ''compress''"
definition COMMANDS_decompressFile :: string where "COMMANDS_decompressFile = ''decompress''"

definition OS_COMMANDS_getDefaultSystemEOL :: string where
  "OS_COMMANDS_getDefaultSystemEOL = ''--EOL''"
definition OS_COMMANDS_getSystemCPUsInfo :: string where
  "OS_COMMANDS_getSystemCPUsInfo = ''--cpus''"
definition OS_COMMANDS_getHomeDir :: string where
  "OS_COMMANDS_getHomeDir = ''--homedir''"
definition OS_COMMANDS_getUserName :: string where
  "OS_COMMANDS_getUserName = ''--username''"
definition OS_COMMANDS_getCPUArchitecture :: string where
  "OS_COMMANDS_getCPUArchitecture = ''--architecture''"

definition OS_COMMANDS_values :: "string list" where
  "OS_COMMANDS_values =
     [OS_COMMANDS_getDefaultSystemEOL, OS_COMMANDS_getSystemCPUsInfo, OS_COMMANDS_getHomeDir,
      OS_COMMANDS_getUserName, OS_COMMANDS_getCPUArchitecture]"

subsection \<open>Writing\<close>

text \<open>
  \<open>write\<close>. \<open>rl.write\<close> hands the string to the readline interface as if the user
  had typed it, so a line it completes comes back to \<open>#handleUserInput\<close> at once; the
  flag \<open>#ignoreStdin\<close> is up for exactly that time and that call returns on its first
  test.
\<close>

definition writeOut :: "string \<Rightarrow> messageType \<Rightarrow> bool \<Rightarrow> state \<Rightarrow> state" where
  "writeOut data messageType newLine st =
     (let st1 = st\<lparr>ignoreStdin := True\<rparr>;
          coloured = (case messageType of
                        MsgError \<Rightarrow> [CHR 0x1B] @ ''[31m'' @ data @ [CHR 0x1B] @ ''[0m''
                      | MsgCurrDir \<Rightarrow> [CHR 0x1B] @ ''[33m'' @ data @ [CHR 0x1B] @ ''[0m''
                      | MsgNone \<Rightarrow> data);
          outputString = (if newLine then coloured @ [CHR 0x0A] else coloured);
          st2 = st1\<lparr>terminal := terminal st1 @ [Written outputString]\<rparr>
      in st2\<lparr>ignoreStdin := False\<rparr>)"

definition writeln :: "string \<Rightarrow> messageType \<Rightarrow> state \<Rightarrow> state" where
  "writeln data messageType st = writeOut data messageType True st"

text \<open>\<open>write(chunk.toString())\<close> for a chunk of a file read as text.\<close>

definition writeChunk :: "nat list \<Rightarrow> state \<Rightarrow> state" where
  "writeChunk chunk st =
     (let st1 = st\<lparr>ignoreStdin := True\<rparr>;
          st2 = st1\<lparr>terminal := terminal st1 @ [WrittenText chunk]\<rparr>
      in st2\<lparr>ignoreStdin := False\<rparr>)"

definition printTable :: "string list list \<Rightarrow> string list \<Rightarrow> state \<Rightarrow> state" where
  "printTable rows properties st = st\<lparr>terminal := terminal st @ [Table properties rows]\<rparr>"

definition printCurrentWorkDir :: "state \<Rightarrow> state" where
  "printCurrentWorkDir st = writeln (''You are currently in '' @ currentWorkDir st) MsgCurrDir st"

definition printProptForCommand :: "state \<Rightarrow> state" where
  "printProptForCommand st = writeln ''> Print command:'' MsgNone st"

definition showInvalidInputMessage :: "state \<Rightarrow> state" where
  "showInvalidInputMessage st = writeln ''Invalid input'' MsgError st"

definition showOperationFailedMessage :: "string \<Rightarrow> state \<Rightarrow> state" where
  "showOperationFailedMessage errorMessage st =
     writeln (''Operation failed: '' @ errorMessage) MsgError st"

text \<open>
  \<open>close\<close>: the farewell, then the \<open>close\<close> event, whose listener (registered where the
  file manager is created) calls \<open>process.exit(0)\<close>.
\<close>

definition close :: "state \<Rightarrow> state" where
  "close st =
     (writeln (''Thank you for using File Manager, '' @ userName st @ '', goodbye!'') MsgNone st)
       \<lparr>exited := Some ExitSuccess\<rparr>"

subsection \<open>Validation\<close>

definition isDirectory :: "filesystem \<Rightarrow> string \<Rightarrow> bool" where
  "isDirectory fs pathToDir = (case stat fs pathToDir of Some Directory \<Rightarrow> True | _ \<Rightarrow> False)"

definition isFile :: "filesystem \<Rightarrow> string \<Rightarrow> bool" where
  "isFile fs pathToFile = (case stat fs pathToFile of Some (File _) \<Rightarrow> True | _ \<Rightarrow> False)"

definition ifAbsolutePathOK :: "state \<Rightarrow> string \<Rightarrow> bool \<Rightarrow> error + unit" where
  "ifAbsolutePathOK st absolutePath checkDirectoryExistance =
     (if absolutePath = [] then Inl InvalidArgumentDirectory
      else if \<not> path_isAbsolute absolutePath then Inl (NotAbsolute absolutePath)
      else if checkDirectoryExistance \<and> \<not> isDirectory (files st) absolutePath then
        Inl (NotFoundDirectory absolutePath)
      else if \<not> startsWith (toLowerCase absolutePath) (toLowerCase (rootWorkDir st)) then
        Inl OutsideRoot
      else Inr ())"

definition ifFileOK :: "host \<Rightarrow> state \<Rightarrow> string \<Rightarrow> bool \<Rightarrow> bool \<Rightarrow> error + unit" where
  "ifFileOK env st pathToFile checkFileExistance checkFileNonExistance =
     (if pathToFile = [] then Inl InvalidArgumentFile
      else let fullFilePath = path_resolve (processCwd env) (currentWorkDir st) pathToFile;
               fullFileDirname = path_dirname fullFilePath
           in if checkFileExistance \<and> \<not> isFile (files st) fullFilePath then
                Inl (NotFoundFile fullFilePath)
              else if checkFileNonExistance \<and> isFile (files st) fullFilePath then
                Inl (AlreadyExists fullFilePath)
              else ifAbsolutePathOK st fullFileDirname True)"

subsection \<open>Streams\<close>

text \<open>What a read stream on a path delivers when it is opened and read to its end.\<close>

definition readStream :: "filesystem \<Rightarrow> string \<Rightarrow> error + byte list" where
  "readStream fs p =
     (case stat fs p of
        None \<Rightarrow> Inl (SystemError ENOENT ''open'' p)
      | Some Directory \<Rightarrow> Inl (SystemError EISDIR ''read'' p)
      | Some (File content) \<Rightarrow> Inr content)"

text \<open>
  A write stream on a path, fed \<open>content\<close> and ended: the path is opened for writing,
  then holds what was written.
\<close>

definition writeStream :: "filesystem \<Rightarrow> string \<Rightarrow> byte list \<Rightarrow> error + filesystem" where
  "writeStream fs p content =
     (case openForWriting fs p of
        Inl e \<Rightarrow> Inl e
      | Inr fs' \<Rightarrow> Inr (AList.update p (File content) fs'))"

text \<open>\<open>fsp.writeFile\<close> opens the path for writing and stores the data.\<close>

definition writeFile :: "filesystem \<Rightarrow> string \<Rightarrow> byte list \<Rightarrow> error + filesystem" where
  "writeFile fs p content = writeStream fs p content"

text \<open>A process that dies of an \<open>error\<close> event no listener took.\<close>

definition unhandledError :: "error \<Rightarrow> state \<Rightarrow> outcome" where
  "unhandledError e st = Terminated (st\<lparr>exited := Some (UncaughtException e)\<rparr>)"

subsection \<open>General operations\<close>

definition exit :: "state \<Rightarrow> string list \<Rightarrow> outcome" where
  "exit st commandWithParams =
     (if commandWithParams = [] \<or> length commandWithParams \<noteq> 1
         \<or> hd commandWithParams \<noteq> COMMANDS_exit then
        Returned (showInvalidInputMessage st)
      else Terminated (close st))"

subsection \<open>Directory operations\<close>

definition goUpper :: "host \<Rightarrow> state \<Rightarrow> string list \<Rightarrow> outcome" where
  "goUpper env st commandWithParams =
     (if commandWithParams = [] \<or> length commandWithParams \<noteq> 1
         \<or> hd commandWithParams \<noteq> COMMANDS_goUpper then
        Returned (showInvalidInputMessage st)
      else if currentWorkDir st = rootWorkDir st then Returned st
      else Returned (st\<lparr>currentWorkDir :=
                          path_resolve (processCwd env) (currentWorkDir st) ''..''\<rparr>))"

definition changeDir :: "host \<Rightarrow> state \<Rightarrow> string list \<Rightarrow> outcome" where
  "changeDir env st commandWithParams =
     (if commandWithParams = [] \<or> length commandWithParams \<noteq> 2
         \<or> hd commandWithParams \<noteq> COMMANDS_changeDir then
        Returned (showInvalidInputMessage st)
      else let nextDir = path_resolve (processCwd env) (currentWorkDir st)
                           (unbraketString (commandWithParams ! 1))
           in case ifAbsolutePathOK st nextDir True of
                Inl e \<Rightarrow> Threw e st
              | Inr _ \<Rightarrow> Returned (st\<lparr>currentWorkDir := nextDir\<rparr>))"

text \<open>
  The objects \<open>#listDir\<close> builds have the properties \<open>Name\<close> and \<open>isDirectory\<close>. The
  comparator reads \<open>a.name\<close> and \<open>b.name\<close>, a property the objects do not have: both
  are \<open>undefined\<close>, here \<open>None\<close>, and no comparison holds of \<open>undefined\<close>.
\<close>

record dirObject =
  Name :: string
  isDirectoryOf :: bool

definition name :: "dirObject \<Rightarrow> string option" where
  "name object = None"

fun stringLess :: "string \<Rightarrow> string \<Rightarrow> bool" where
  "stringLess [] [] = False"
| "stringLess [] (y # ys) = True"
| "stringLess (x # xs) [] = False"
| "stringLess (x # xs) (y # ys) =
     ((of_char x :: nat) < of_char y \<or> (x = y \<and> stringLess xs ys))"

definition jsLess :: "string option \<Rightarrow> string option \<Rightarrow> bool" where
  "jsLess a b = (case (a, b) of (Some x, Some y) \<Rightarrow> stringLess x y | _ \<Rightarrow> False)"

definition compareObjects :: "dirObject \<Rightarrow> dirObject \<Rightarrow> int" where
  "compareObjects a b =
     (if isDirectoryOf a \<and> \<not> isDirectoryOf b then -1
      else if \<not> isDirectoryOf a \<and> isDirectoryOf b then 1
      else if jsLess (name a) (name b) then -1
      else if jsLess (name b) (name a) then 1
      else 0)"

text \<open>
  \<open>Array.prototype.sort\<close> with a comparator: a stable sort, here by insertion.
\<close>

fun insertBy :: "('a \<Rightarrow> 'a \<Rightarrow> int) \<Rightarrow> 'a \<Rightarrow> 'a list \<Rightarrow> 'a list" where
  "insertBy cmp x [] = [x]"
| "insertBy cmp x (y # ys) = (if cmp x y \<le> 0 then x # y # ys else y # insertBy cmp x ys)"

definition sortBy :: "('a \<Rightarrow> 'a \<Rightarrow> int) \<Rightarrow> 'a list \<Rightarrow> 'a list" where
  "sortBy cmp xs = foldr (insertBy cmp) xs []"

definition listedObjects :: "filesystem \<Rightarrow> string \<Rightarrow> string list \<Rightarrow> dirObject list" where
  "listedObjects fs dir elements =
     sortBy compareObjects
       (map (\<lambda>element. \<lparr>Name = element,
                         isDirectoryOf = isDirectory fs (path_join dir element)\<rparr>) elements)"

definition listDir :: "state \<Rightarrow> string list \<Rightarrow> outcome" where
  "listDir st commandWithParams =
     (if commandWithParams = [] \<or> length commandWithParams \<noteq> 1
         \<or> hd commandWithParams \<noteq> COMMANDS_listDir then
        Returned (showInvalidInputMessage st)
      else case readdir (files st) (currentWorkDir st) of
             Inl e \<Rightarrow> Threw e st
           | Inr elements \<Rightarrow>
               Returned (printTable
                 (map (\<lambda>object. [Name object,
                                  if isDirectoryOf object then ''directory'' else ''file''])
                    (listedObjects (files st) (currentWorkDir st) elements))
                 [''Name'', ''Type''] st))"

subsection \<open>File operations\<close>

definition printFileContent :: "host \<Rightarrow> state \<Rightarrow> string list \<Rightarrow> outcome" where
  "printFileContent env st commandWithParams =
     (if commandWithParams = [] \<or> length commandWithParams \<noteq> 2
         \<or> hd commandWithParams \<noteq> COMMANDS_printFileContent then
        Returned (showInvalidInputMessage st)
      else let pathToFile = path_resolve (processCwd env) (currentWorkDir st)
                              (unbraketString (commandWithParams ! 1))
           in case ifFileOK env st pathToFile True False of
                Inl e \<Rightarrow> Threw e st
              | Inr _ \<Rightarrow>
                  (case readStream (files st) pathToFile of
                     Inl e \<Rightarrow> Threw e st
                   | Inr content \<Rightarrow>
                       Returned (writeln [] MsgNone
                         (if content = [] then st else writeChunk (utf8_decode content) st))))"

definition createEmptyFile :: "host \<Rightarrow> state \<Rightarrow> string list \<Rightarrow> outcome" where
  "createEmptyFile env st commandWithParams =
     (if commandWithParams = [] \<or> length commandWithParams \<noteq> 2
         \<or> hd commandWithParams \<noteq> COMMANDS_createEmptyFile then
        Returned (showInvalidInputMessage st)
      else let pathToFile = path_resolve (processCwd env) (currentWorkDir st)
                              (unbraketString (commandWithParams ! 1))
           in case ifFileOK env st pathToFile False True of
                Inl e \<Rightarrow> Threw e st
              | Inr _ \<Rightarrow>
                  (case writeFile (files st) pathToFile [] of
                     Inl e \<Rightarrow> Threw e st
                   | Inr fs \<Rightarrow> Returned (st\<lparr>files := fs\<rparr>)))"

definition renameFile :: "host \<Rightarrow> state \<Rightarrow> string list \<Rightarrow> outcome" where
  "renameFile env st commandWithParams =
     (if commandWithParams = [] \<or> length commandWithParams \<noteq> 3
         \<or> hd commandWithParams \<noteq> COMMANDS_renameFile then
        Returned (showInvalidInputMessage st)
      else let filePath = path_resolve (processCwd env) (currentWorkDir st)
                            (unbraketString (commandWithParams ! 1));
               newFilePath = path_resolve (processCwd env) (currentWorkDir st)
                               (unbraketString (commandWithParams ! 2))
           in case ifFileOK env st filePath True False of
                Inl e \<Rightarrow> Threw e st
              | Inr _ \<Rightarrow>
                  (case ifFileOK env st newFilePath False True of
                     Inl e \<Rightarrow> Threw e st
                   | Inr _ \<Rightarrow>
                       (case rename (files st) filePath newFilePath of
                          Inl e \<Rightarrow> Threw e st
                        | Inr fs \<Rightarrow> Returned (st\<lparr>files := fs\<rparr>))))"

text \<open>
  \<open>#createCopyingPromise\<close>: the source is read as UTF-8 text and piped into a write
  stream on the destination, which writes text as UTF-8. Nothing listens for \<open>error\<close>
  on either stream, and the \<open>try\<close> around their creation catches nothing they emit
  later.
\<close>

definition createCopyingPromise :: "state \<Rightarrow> string \<Rightarrow> string \<Rightarrow> outcome" where
  "createCopyingPromise st filePath newFilePath =
     (case readStream (files st) filePath of
        Inl e \<Rightarrow> unhandledError e st
      | Inr content \<Rightarrow>
          (case writeStream (files st) newFilePath (utf8_encode (utf8_decode content)) of
             Inl e \<Rightarrow> unhandledError e st
           | Inr fs \<Rightarrow> Returned (st\<lparr>files := fs\<rparr>)))"

definition copyFile :: "host \<Rightarrow> state \<Rightarrow> string list \<Rightarrow> outcome" where
  "copyFile env st commandWithParams =
     (if commandWithParams = [] \<or> length commandWithParams \<noteq> 3
         \<or> hd commandWithParams \<noteq> COMMANDS_copyFile then
        Returned (showInvalidInputMessage st)
      else let filePath = path_resolve (processCwd env) (currentWorkDir st)
                            (unbraketString (commandWithParams ! 1));
               newFilePath = path_resolve (processCwd env) (currentWorkDir st)
                               (unbraketString (commandWithParams ! 2))
           in case ifFileOK env st filePath True False of
                Inl e \<Rightarrow> Threw e st
              | Inr _ \<Rightarrow>
                  (case ifFileOK env st newFilePath False True of
                     Inl e \<Rightarrow> Threw e st
                   | Inr _ \<Rightarrow> createCopyingPromise st filePath newFilePath))"

definition moveFile :: "host \<Rightarrow> state \<Rightarrow> string list \<Rightarrow> outcome" where
  "moveFile env st commandWithParams =
     (if commandWithParams = [] \<or> length commandWithParams \<noteq> 3
         \<or> hd commandWithParams \<noteq> COMMANDS_moveFile then
        Returned (showInvalidInputMessage st)
      else let filePath = path_resolve (processCwd env) (currentWorkDir st)
                            (unbraketString (commandWithParams ! 1));
               newFilePath = path_resolve (processCwd env) (currentWorkDir st)
                               (unbraketString (commandWithParams ! 2))
           in case ifFileOK env st filePath True False of
                Inl e \<Rightarrow> Threw e st
              | Inr _ \<Rightarrow>
                  (case ifFileOK env st newFilePath False True of
                     Inl e \<Rightarrow> Threw e st
                   | Inr _ \<Rightarrow>
                       (case createCopyingPromise st filePath newFilePath of
                          Returned st' \<Rightarrow>
                            (case unlink (files st') filePath of
                               Inl e \<Rightarrow> Threw e st'
                             | Inr fs \<Rightarrow> Returned (st'\<lparr>files := fs\<rparr>))
                        | other \<Rightarrow> other)))"

definition deleteFile :: "host \<Rightarrow> state \<Rightarrow> string list \<Rightarrow> outcome" where
  "deleteFile env st commandWithParams =
     (if commandWithParams = [] \<or> length commandWithParams \<noteq> 2
         \<or> hd commandWithParams \<noteq> COMMANDS_deleteFile then
        Returned (showInvalidInputMessage st)
      else let pathToFile = path_resolve (processCwd env) (currentWorkDir st)
                              (unbraketString (commandWithParams ! 1))
           in case ifFileOK env st pathToFile True False of
                Inl e \<Rightarrow> Threw e st
              | Inr _ \<Rightarrow>
                  (case unlink (files st) pathToFile of
                     Inl e \<Rightarrow> Threw e st
                   | Inr fs \<Rightarrow> Returned (st\<lparr>files := fs\<rparr>)))"

subsection \<open>System operations\<close>

text \<open>
  \<open>commandWithParams[1]\<close> is \<open>undefined\<close> when the command stands alone, and
  \<open>undefined\<close> is none of the values of \<open>OS_COMMANDS\<close>.
\<close>

definition getOSCommandParameter :: "string list \<Rightarrow> string option" where
  "getOSCommandParameter commandWithParams =
     (if commandWithParams = [] \<or> length commandWithParams > 2
         \<or> hd commandWithParams \<noteq> COMMANDS_os
         \<or> \<not> (case tl commandWithParams of
                   [] \<Rightarrow> False
                 | parameter # _ \<Rightarrow> parameter \<in> set OS_COMMANDS_values) then None
      else Some (commandWithParams ! 1))"

text \<open>\<open>osEOL\<close> stands for \<open>JSON.stringify(os.EOL)\<close>.\<close>

definition getEOL :: "host \<Rightarrow> state \<Rightarrow> state" where
  "getEOL env st = writeln (osEOL env) MsgNone st"

definition getCPUsInfo :: "host \<Rightarrow> state \<Rightarrow> state" where
  "getCPUsInfo env st =
     printTable (map (\<lambda>(model, speed). [model, speed @ '' GHz'']) (osCpus env))
       [''model'', ''speed''] st"

definition getHomeDir :: "state \<Rightarrow> state" where
  "getHomeDir st = writeln (rootWorkDir st) MsgNone st"

definition getUserName :: "state \<Rightarrow> state" where
  "getUserName st = writeln (userName st) MsgNone st"

definition getCPUArchitecture :: "host \<Rightarrow> state \<Rightarrow> state" where
  "getCPUArchitecture env st = writeln (osArch env) MsgNone st"

definition osCommand :: "host \<Rightarrow> state \<Rightarrow> string list \<Rightarrow> outcome" where
  "osCommand env st commandWithParams =
     (case getOSCommandParameter commandWithParams of
        None \<Rightarrow> Returned (showInvalidInputMessage st)
      | Some commandParameter \<Rightarrow>
          if commandParameter = OS_COMMANDS_getDefaultSystemEOL then Returned (getEOL env st)
          else if commandParameter = OS_COMMANDS_getSystemCPUsInfo then Returned (getCPUsInfo env st)
          else if commandParameter = OS_COMMANDS_getHomeDir then Returned (getHomeDir st)
          else if commandParameter = OS_COMMANDS_getUserName then Returned (getUserName st)
          else if commandParameter = OS_COMMANDS_getCPUArchitecture then
            Returned (getCPUArchitecture env st)
          else Returned (showInvalidInputMessage st))"

subsection \<open>Hash operations\<close>

definition getFileHash :: "host \<Rightarrow> state \<Rightarrow> string list \<Rightarrow> outcome" where
  "getFileHash env st commandWithParams =
     (if commandWithParams = [] \<or> length commandWithParams \<noteq> 2
         \<or> hd commandWithParams \<noteq> COMMANDS_getFileHash then
        Returned (showInvalidInputMessage st)
      else let pathToFile = path_resolve (processCwd env) (currentWorkDir st)
                              (unbraketString (commandWithParams ! 1))
           in case ifFileOK env st pathToFile True False of
                Inl e \<Rightarrow> Threw e st
              | Inr _ \<Rightarrow>
                  (case readStream (files st) pathToFile of
                     Inl e \<Rightarrow> Threw e st
                   | Inr content \<Rightarrow> Returned (writeln (sha256hex env content) MsgNone st)))"

subsection \<open>Compress and decompress operations\<close>

text \<open>
  What the two pipelines hand to the write stream. \<open>#compressFile\<close> opens its read
  stream with the encoding \<open>utf-8\<close>: the compressor is fed the text, written as UTF-8.
  \<open>#decompressFile\<close> reads bytes.
\<close>

definition compressedContent :: "host \<Rightarrow> byte list \<Rightarrow> byte list" where
  "compressedContent env content = brotliCompress env (utf8_encode (utf8_decode content))"

definition decompressedContent :: "host \<Rightarrow> byte list \<Rightarrow> byte list option" where
  "decompressedContent env content = brotliDecompress env content"

text \<open>
  Both handlers listen for \<open>error\<close> on the write stream only: its error rejects the
  promise, an error of the read stream or of the codec has no listener. When the
  decompressor fails, the destination has already been opened, so it exists and is empty.
\<close>

definition compressFile :: "host \<Rightarrow> state \<Rightarrow> string list \<Rightarrow> outcome" where
  "compressFile env st commandWithParams =
     (if commandWithParams = [] \<or> length commandWithParams \<noteq> 3
         \<or> hd commandWithParams \<noteq> COMMANDS_compressFile then
        Returned (showInvalidInputMessage st)
      else let initialFilePath = path_resolve (processCwd env) (currentWorkDir st)
                                   (unbraketString (commandWithParams ! 1));
               compressedFilePath = path_resolve (processCwd env) (currentWorkDir st)
                                      (unbraketString (commandWithParams ! 2))
           in case ifFileOK env st initialFilePath True False of
                Inl e \<Rightarrow> Threw e st
              | Inr _ \<Rightarrow>
                  (case ifFileOK env st compressedFilePath False True of
                     Inl e \<Rightarrow> Threw e st
                   | Inr _ \<Rightarrow>
                       (case readStream (files st) initialFilePath of
                          Inl e \<Rightarrow> unhandledError e st
                        | Inr content \<Rightarrow>
                            (case writeStream (files st) compressedFilePath
                                    (compressedContent env content) of
                               Inl e \<Rightarrow> Threw e st
                             | Inr fs \<Rightarrow> Returned (st\<lparr>files := fs\<rparr>)))))"

definition decompressFile :: "host \<Rightarrow> state \<Rightarrow> string list \<Rightarrow> outcome" where
  "decompressFile env st commandWithParams =
     (if commandWithParams = [] \<or> length commandWithParams \<noteq> 3
         \<or> hd commandWithParams \<noteq> COMMANDS_decompressFile then
        Returned (showInvalidInputMessage st)
      else let compressedFilePath = path_resolve (processCwd env) (currentWorkDir st)
                                      (unbraketString (commandWithParams ! 1));
               decompressedFilePath = path_resolve (processCwd env) (currentWorkDir st)
                                        (unbraketString (commandWithParams ! 2))
           in case ifFileOK env st compressedFilePath True False of
                Inl e \<Rightarrow> Threw e st
              | Inr _ \<Rightarrow>
                  (case ifFileOK env st decompressedFilePath False True of
                     Inl e \<Rightarrow> Threw e st
                   | Inr _ \<Rightarrow>
                       (case readStream (files st) compressedFilePath of
                          Inl e \<Rightarrow> unhandledError e st
                        | Inr content \<Rightarrow>
                            (case openForWriting (files st) decompressedFilePath of
                               Inl e \<Rightarrow> Threw e st
                             | Inr opened \<Rightarrow>
                                 (case decompressedContent env content of
                                    None \<Rightarrow> unhandledError DecompressionFailed (st\<lparr>files := opened\<rparr>)
                                  | Some bytes \<Rightarrow>
                                      Returned (st\<lparr>files :=
                                        AList.update decompressedFilePath (File bytes) opened\<rparr>))))))"

subsection \<open>The dispatcher\<close>

text \<open>The \<open>switch\<close> of \<open>#handleUserInput\<close>, on the first word of the line.\<close>

definition dispatch :: "host \<Rightarrow> state \<Rightarrow> string list \<Rightarrow> outcome" where
  "dispatch env st commandWithParams =
     (let command = hd commandWithParams in
      if command = COMMANDS_exit then exit st commandWithParams
      else if command = COMMANDS_goUpper then goUpper env st commandWithParams
      else if command = COMMANDS_changeDir then changeDir env st commandWithParams
      else if command = COMMANDS_listDir then listDir st commandWithParams
      else if command = COMMANDS_printFileContent then printFileContent env st commandWithParams
      else if command = COMMANDS_createEmptyFile then createEmptyFile env st commandWithParams
      else if command = COMMANDS_renameFile then renameFile env st commandWithParams
      else if command = COMMANDS_copyFile then copyFile env st commandWithParams
      else if command = COMMANDS_moveFile then moveFile env st commandWithParams
      else if command = COMMANDS_deleteFile then deleteFile env st commandWithParams
      else if command = COMMANDS_os then osCommand env st commandWithParams
      else if command = COMMANDS_getFileHash then getFileHash env st commandWithParams
      else if command = COMMANDS_compressFile then compressFile env st commandWithParams
      else if command = COMMANDS_decompressFile then decompressFile env st commandWithParams
      else Returned (showInvalidInputMessage st))"

text \<open>
  \<open>#handleUserInput\<close>: \<open>try\<close>, \<open>catch\<close> and \<open>finally\<close> around the \<open>switch\<close>. A
  process that has ended reads no line and prints nothing.
\<close>

definition handleUserInput :: "host \<Rightarrow> state \<Rightarrow> string \<Rightarrow> state" where
  "handleUserInput env st inputs =
     (if exited st \<noteq> None then st
      else if ignoreStdin st then st
      else let commandWithParams = getCommandWithParameters inputs in
           if commandWithParams = [] then st
           else case dispatch env st commandWithParams of
                  Returned st' \<Rightarrow> printProptForCommand (printCurrentWorkDir st')
                | Threw e st' \<Rightarrow>
                    printProptForCommand
                      (printCurrentWorkDir (showOperationFailedMessage (message e) st'))
                | Terminated st' \<Rightarrow> st')"

text \<open>A session: the lines the user types, one after the other.\<close>

definition session :: "host \<Rightarrow> state \<Rightarrow> string list \<Rightarrow> state" where
  "session env st inputs = foldl (handleUserInput env) st inputs"

section \<open>An example session\<close>

text \<open>
  A host for the examples: the process runs in \<open>/\<close> and its codec leaves the bytes as
  they are, which makes the decompressor the inverse of the compressor.
\<close>

definition exampleHost :: host where
  "exampleHost =
     \<lparr>processCwd = ''/'', brotliCompress = (\<lambda>bytes. bytes),
      brotliDecompress = (\<lambda>bytes. Some bytes), sha256hex = (\<lambda>bytes. []),
      osEOL = [], osCpus = [], osArch = []\<rparr>"

text \<open>
  The home directory \<open>/home/user\<close> holds the file
  \<open>b.txt\<close> (one byte, 0xFF), the directory \<open>docs\<close> and the file \<open>a.txt\<close> (the letter
  A); beside it stands the directory \<open>/home/user2\<close>.
\<close>

definition exampleFiles :: filesystem where
  "exampleFiles =
     [(''/'', Directory), (''/home'', Directory), (''/home/user'', Directory),
      (''/home/user2'', Directory), (''/home/user/b.txt'', File [0xFF]),
      (''/home/user/docs'', Directory), (''/home/user/a.txt'', File [0x41])]"

definition exampleSession :: state where
  "exampleSession = newFileManager ''/home/user'' ''user'' exampleFiles"

section \<open>The parser, as the specification words it\<close>

text \<open>
  The specification's tokenizer splits the trimmed line on its unquoted spaces. A space
  is unquoted when an even number of bracket characters stands before it; the tokens are
  the non-empty runs of characters between unquoted spaces.
\<close>

fun markSeparators :: "bool \<Rightarrow> string \<Rightarrow> (char \<times> bool) list" where
  "markSeparators quoted [] = []"
| "markSeparators quoted (c # cs) =
     (let q = (if charIsBracket c then \<not> quoted else quoted)
      in (c, c = CHR '' '' \<and> \<not> q) # markSeparators q cs)"

fun splitRuns :: "(char \<times> bool) list \<Rightarrow> string \<Rightarrow> string list" where
  "splitRuns [] run = (if run = [] then [] else [run])"
| "splitRuns ((c, sep) # xs) run =
     (if sep then (if run = [] then splitRuns xs [] else run # splitRuns xs [])
      else splitRuns xs (run @ [c]))"

definition spec_tokenize :: "string \<Rightarrow> string list" where
  "spec_tokenize line = splitRuns (markSeparators False (trim line)) []"

section \<open>The arities, as the specification words them\<close>

text \<open>The table of the specification: the number of arguments each command takes.\<close>

definition arity :: "string \<Rightarrow> nat option" where
  "arity command =
     map_of [(COMMANDS_exit, 0), (COMMANDS_goUpper, 0), (COMMANDS_changeDir, 1),
             (COMMANDS_listDir, 0), (COMMANDS_printFileContent, 1),
             (COMMANDS_createEmptyFile, 1), (COMMANDS_renameFile, 2), (COMMANDS_copyFile, 2),
             (COMMANDS_moveFile, 2), (COMMANDS_deleteFile, 1), (COMMANDS_os, 1),
             (COMMANDS_getFileHash, 1), (COMMANDS_compressFile, 2),
             (COMMANDS_decompressFile, 2)] command"

section \<open>Properties of the parser\<close>

lemma parseLoop_splitRuns:
  "(case parseLoop cs params tmp q of (ps, t) \<Rightarrow> if t \<noteq> [] then ps @ [t] else ps) =
   params @ splitRuns (markSeparators q cs) tmp"
  by (induction cs arbitrary: params tmp q) (simp_all add: Let_def)

lemma trim_Nil: "trim [] = []"
  by (simp add: trim_def)

lemma getCommandWithParameters_spec: "getCommandWithParameters line = spec_tokenize line"
proof (cases "line = []")
  case True
  then show ?thesis
    by (simp add: getCommandWithParameters_def spec_tokenize_def trim_Nil)
next
  case False
  then show ?thesis
    using parseLoop_splitRuns [of "trim line" "[]" "[]" False]
    by (simp add: getCommandWithParameters_def spec_tokenize_def)
qed

text \<open>
  C9. \<open>#unbraketString\<close> strips the first and the last character of a token exactly when
  the token's first character is a bracket character equal to its last character; the
  one-character token holding a single bracket character becomes the empty string.
\<close>

theorem unbraketString_strips_iff:
  "unbraketString str =
     (if str \<noteq> [] \<and> charIsBracket (hd str) \<and> hd str = last str then butlast (tl str) else str)
   \<and> unbraketString [CHR 0x27] = []
   \<and> unbraketString [CHR 0x22] = []"
proof (cases str)
  case Nil
  then show ?thesis
    by (simp add: unbraketString_def charIsBracket_def)
next
  case (Cons c cs)
  then show ?thesis
    by (cases cs) (auto simp add: unbraketString_def charIsBracket_def Let_def)
qed

section \<open>Evaluating the example session\<close>

lemmas COMMANDS_defs =
  COMMANDS_goUpper_def COMMANDS_exit_def COMMANDS_changeDir_def COMMANDS_listDir_def
  COMMANDS_printFileContent_def COMMANDS_createEmptyFile_def COMMANDS_renameFile_def
  COMMANDS_copyFile_def COMMANDS_moveFile_def COMMANDS_deleteFile_def COMMANDS_os_def
  COMMANDS_getFileHash_def COMMANDS_compressFile_def COMMANDS_decompressFile_def

lemmas OS_COMMANDS_defs =
  OS_COMMANDS_getDefaultSystemEOL_def OS_COMMANDS_getSystemCPUsInfo_def
  OS_COMMANDS_getHomeDir_def OS_COMMANDS_getUserName_def OS_COMMANDS_getCPUArchitecture_def
  OS_COMMANDS_values_def

lemmas writer_defs =
  writeOut_def writeln_def printCurrentWorkDir_def printProptForCommand_def
  showInvalidInputMessage_def showOperationFailedMessage_def printTable_def writeChunk_def

lemmas fs_defs =
  stat_def isFile_def isDirectory_def readStream_def writeStream_def writeFile_def
  openForWriting_def readdir_def unlink_def rename_def

lemma lower_home: "toLowerCase ''/home'' = ''/home''"
  by code_simp

lemma lower_home_user: "toLowerCase ''/home/user'' = ''/home/user''"
  by code_simp

lemma lower_home_user2: "toLowerCase ''/home/user2'' = ''/home/user2''"
  by code_simp

lemma tokens_cd_user2: "getCommandWithParameters ''cd ../user2'' = [''cd'', ''../user2'']"
  by code_simp

lemma tokens_up: "getCommandWithParameters ''up'' = [''up'']"
  by code_simp

lemma tokens_ls: "getCommandWithParameters ''ls'' = [''ls'']"
  by code_simp

lemma tokens_cp_b_c: "getCommandWithParameters ''cp b.txt c.txt'' = [''cp'', ''b.txt'', ''c.txt'']"
  by code_simp

lemma tokens_cp_a_docs: "getCommandWithParameters ''cp a.txt docs'' = [''cp'', ''a.txt'', ''docs'']"
  by code_simp

lemma resolve_examples:
  "path_resolve pc ''/home/user'' ''../user2'' = ''/home/user2''"
  "path_resolve pc ''/home/user2'' ''..'' = ''/home''"
  "path_resolve pc ''/home/user'' ''a.txt'' = ''/home/user/a.txt''"
  "path_resolve pc ''/home/user'' ''b.txt'' = ''/home/user/b.txt''"
  "path_resolve pc ''/home/user'' ''c.txt'' = ''/home/user/c.txt''"
  "path_resolve pc ''/home/user'' ''docs'' = ''/home/user/docs''"
  "path_resolve pc ''/home/user'' ''/home/user/a.txt'' = ''/home/user/a.txt''"
  "path_resolve pc ''/home/user'' ''/home/user/b.txt'' = ''/home/user/b.txt''"
  "path_resolve pc ''/home/user'' ''/home/user/c.txt'' = ''/home/user/c.txt''"
  "path_resolve pc ''/home/user'' ''/home/user/docs'' = ''/home/user/docs''"
  by (simp_all add: path_resolve_def)

lemma dirname_examples:
  "path_dirname ''/home/user/a.txt'' = ''/home/user''"
  "path_dirname ''/home/user/b.txt'' = ''/home/user''"
  "path_dirname ''/home/user/c.txt'' = ''/home/user''"
  "path_dirname ''/home/user/docs'' = ''/home/user''"
  by (simp_all add: path_dirname_def)

lemma join_examples:
  "path_join ''/home/user'' ''a.txt'' = ''/home/user/a.txt''"
  "path_join ''/home/user'' ''b.txt'' = ''/home/user/b.txt''"
  "path_join ''/home/user'' ''docs'' = ''/home/user/docs''"
  by (simp_all add: path_join_def path_normalize_def)

lemma sort_example: "sort [''b.txt'', ''docs'', ''a.txt''] = [''a.txt'', ''b.txt'', ''docs'']"
  by code_simp

lemma readdir_example: "readdir exampleFiles ''/home/user'' = Inr [''a.txt'', ''b.txt'', ''docs'']"
  by (simp add: readdir_def stat_def exampleFiles_def path_dirname_def sort_example
      del: sort_key_simps)

lemma kinds_example:
  "\<not> isDirectory exampleFiles ''/home/user/b.txt''"
  "isDirectory exampleFiles ''/home/user/docs''"
  "\<not> isDirectory exampleFiles ''/home/user/a.txt''"
  by (simp_all add: isDirectory_def stat_def exampleFiles_def)

lemma recode_FF: "utf8_encode (utf8_decode [0xFF]) = [0xEF, 0xBF, 0xBD]"
  by (simp add: utf8_decode_def utf8_encode_def utf8_encode_char_def)

lemma recode_41: "utf8_encode (utf8_decode [0x41]) = [0x41]"
  by (simp add: utf8_decode_def utf8_encode_def utf8_encode_char_def)

subsection \<open>The current directory\<close>

text \<open>
  Every command but \<open>up\<close> and \<open>cd\<close> leaves the current directory as it is, and a
  \<open>cd\<close> that moves lands on a path that starts with the root directory.
\<close>

lemma writers_keep_currentWorkDir:
  "currentWorkDir (writeOut text kind newLine st) = currentWorkDir st"
  "currentWorkDir (writeln text kind st) = currentWorkDir st"
  "currentWorkDir (writeChunk chunk st) = currentWorkDir st"
  "currentWorkDir (printTable rows properties st) = currentWorkDir st"
  "currentWorkDir (printCurrentWorkDir st) = currentWorkDir st"
  "currentWorkDir (printProptForCommand st) = currentWorkDir st"
  "currentWorkDir (showInvalidInputMessage st) = currentWorkDir st"
  "currentWorkDir (showOperationFailedMessage errorMessage st) = currentWorkDir st"
  "currentWorkDir (close st) = currentWorkDir st"
  by (simp_all add: writer_defs close_def Let_def)

lemma createCopyingPromise_keeps_currentWorkDir:
  "currentWorkDir (outcomeState (createCopyingPromise st a b)) = currentWorkDir st"
  by (simp add: createCopyingPromise_def unhandledError_def split: sum.splits)

lemma handlers_keep_currentWorkDir:
  "currentWorkDir (outcomeState (exit st cmd)) = currentWorkDir st"
  "currentWorkDir (outcomeState (listDir st cmd)) = currentWorkDir st"
  "currentWorkDir (outcomeState (printFileContent env st cmd)) = currentWorkDir st"
  "currentWorkDir (outcomeState (createEmptyFile env st cmd)) = currentWorkDir st"
  "currentWorkDir (outcomeState (renameFile env st cmd)) = currentWorkDir st"
  "currentWorkDir (outcomeState (copyFile env st cmd)) = currentWorkDir st"
  "currentWorkDir (outcomeState (deleteFile env st cmd)) = currentWorkDir st"
  "currentWorkDir (outcomeState (osCommand env st cmd)) = currentWorkDir st"
  "currentWorkDir (outcomeState (getFileHash env st cmd)) = currentWorkDir st"
  "currentWorkDir (outcomeState (compressFile env st cmd)) = currentWorkDir st"
  "currentWorkDir (outcomeState (decompressFile env st cmd)) = currentWorkDir st"
  by (simp_all add: exit_def listDir_def printFileContent_def createEmptyFile_def renameFile_def
      copyFile_def deleteFile_def osCommand_def getFileHash_def compressFile_def
      decompressFile_def getEOL_def getCPUsInfo_def getHomeDir_def getUserName_def
      getCPUArchitecture_def unhandledError_def writeFile_def Let_def
      writers_keep_currentWorkDir createCopyingPromise_keeps_currentWorkDir
      split: sum.splits option.splits)

lemma moveFile_keeps_currentWorkDir:
  "currentWorkDir (outcomeState (moveFile env st cmd)) = currentWorkDir st"
proof -
  have "currentWorkDir (outcomeState (case createCopyingPromise st a b of
          Returned st' \<Rightarrow> (case unlink (files st') a of
                              Inl e \<Rightarrow> Threw e st'
                            | Inr fs \<Rightarrow> Returned (st'\<lparr>files := fs\<rparr>))
        | other \<Rightarrow> other)) = currentWorkDir st" for a b
    using createCopyingPromise_keeps_currentWorkDir [of st a b]
    by (cases "createCopyingPromise st a b") (auto split: sum.splits)
  then show ?thesis
    by (simp add: moveFile_def Let_def writers_keep_currentWorkDir
        split: sum.splits)
qed

lemma dispatch_keeps_currentWorkDir:
  assumes "command \<noteq> COMMANDS_goUpper" and "command \<noteq> COMMANDS_changeDir"
  shows "currentWorkDir (outcomeState (dispatch env st (command # args))) = currentWorkDir st"
  using assms
  by (simp add: dispatch_def Let_def handlers_keep_currentWorkDir moveFile_keeps_currentWorkDir
      writers_keep_currentWorkDir)

lemma only_navigation_changes_currentWorkDir:
  assumes "getCommandWithParameters inputs = command # args"
    and "command \<noteq> COMMANDS_goUpper" and "command \<noteq> COMMANDS_changeDir"
  shows "currentWorkDir (handleUserInput env st inputs) = currentWorkDir st"
proof (cases "dispatch env st (command # args)")
  case (Returned st')
  with dispatch_keeps_currentWorkDir [OF assms(2,3), of env st args] show ?thesis
    using assms(1) by (simp add: handleUserInput_def writers_keep_currentWorkDir)
next
  case (Threw e st')
  with dispatch_keeps_currentWorkDir [OF assms(2,3), of env st args] show ?thesis
    using assms(1) by (simp add: handleUserInput_def writers_keep_currentWorkDir)
next
  case (Terminated st')
  with dispatch_keeps_currentWorkDir [OF assms(2,3), of env st args] show ?thesis
    using assms(1) by (simp add: handleUserInput_def)
qed

lemma changeDir_stays_under_prefix:
  assumes "changeDir env st cmd = Returned st'" and "currentWorkDir st' \<noteq> currentWorkDir st"
  shows "startsWith (toLowerCase (currentWorkDir st')) (toLowerCase (rootWorkDir st'))"
  using assms
  by (auto simp add: changeDir_def Let_def ifAbsolutePathOK_def writers_keep_currentWorkDir
      split: if_splits sum.splits)

text \<open>
  C1. The claim: after every command the current directory is the root directory or a
  path that starts with it, compared without regard to case, and only \<open>up\<close> and \<open>cd\<close>
  change it. The second half holds (\<open>only_navigation_changes_currentWorkDir\<close>); the
  first does not. In the example session the
  user enters \<open>cd ../user2\<close>, which \<open>#ifAbsolutePathOK\<close> lets pass because
  \<open>/home/user2\<close> starts with \<open>/home/user\<close>, and then \<open>up\<close>: the current directory
  is \<open>/home\<close>, which does not start with the root directory \<open>/home/user\<close>.
\<close>

theorem goUpper_leaves_root:
  "currentWorkDir (session env exampleSession [''cd ../user2'', ''up'']) = ''/home''
   \<and> rootWorkDir (session env exampleSession [''cd ../user2'', ''up'']) = ''/home/user''
   \<and> \<not> startsWith (toLowerCase ''/home'') (toLowerCase ''/home/user'')"
  by (simp add: session_def handleUserInput_def tokens_cd_user2 tokens_up exampleSession_def
      newFileManager_def dispatch_def COMMANDS_defs changeDir_def goUpper_def resolve_examples
      ifAbsolutePathOK_def path_isAbsolute_def isDirectory_def stat_def exampleFiles_def
      lower_home lower_home_user lower_home_user2 startsWith_def unbraketString_def
      charIsBracket_def writer_defs Let_def)

subsection \<open>Copying\<close>

text \<open>
  What \<open>#createCopyingPromise\<close> leaves at the destination when it returns: the content
  of the source, decoded and encoded again. No other path changes.
\<close>

lemma createCopyingPromise_content:
  assumes "readStream (files st) filePath = Inr content"
    and "createCopyingPromise st filePath newFilePath = Returned st'"
  shows "stat (files st') newFilePath = Some (File (utf8_encode (utf8_decode content)))
       \<and> (\<forall>p. p \<noteq> newFilePath \<longrightarrow> stat (files st') p = stat (files st) p)"
  using assms
  by (auto simp add: createCopyingPromise_def writeStream_def openForWriting_def stat_def
      unhandledError_def update_conv' split: sum.splits if_splits option.splits node.splits)

text \<open>
  C4. The claim: the copy holds the bytes of the source. In the example session
  \<open>b.txt\<close> holds the single byte 0xFF and \<open>c.txt\<close> does not exist; after
  \<open>cp b.txt c.txt\<close> the file \<open>c.txt\<close> holds the three bytes 0xEF 0xBF 0xBD, the UTF-8
  form of U+FFFD, and \<open>b.txt\<close> is as it was.
\<close>

theorem copyFile_rewrites_bytes:
  "stat (files exampleSession) ''/home/user/b.txt'' = Some (File [0xFF])
   \<and> stat (files exampleSession) ''/home/user/c.txt'' = None
   \<and> stat (files (handleUserInput env exampleSession ''cp b.txt c.txt'')) ''/home/user/c.txt''
       = Some (File [0xEF, 0xBF, 0xBD])
   \<and> stat (files (handleUserInput env exampleSession ''cp b.txt c.txt'')) ''/home/user/b.txt''
       = Some (File [0xFF])"
  by (simp add: handleUserInput_def tokens_cp_b_c exampleSession_def newFileManager_def
      dispatch_def COMMANDS_defs copyFile_def createCopyingPromise_def ifFileOK_def
      ifAbsolutePathOK_def resolve_examples dirname_examples recode_FF lower_home_user
      startsWith_def path_isAbsolute_def unbraketString_def charIsBracket_def fs_defs
      exampleFiles_def writer_defs Let_def)

subsection \<open>Listing\<close>




lemma stringLess_iff: "stringLess a b \<longleftrightarrow> a < b"
  by (induction a b rule: stringLess.induct) (simp_all add: less_char_def)





subsection \<open>After the dispatch\<close>

text \<open>
  What \<open>catch\<close> and \<open>finally\<close> print when the handler throws, and what \<open>finally\<close>
  prints when it returns.
\<close>

lemma thrown_error_is_reported:
  assumes "exited st = None" and "\<not> ignoreStdin st"
    and "getCommandWithParameters inputs = command # args"
    and "dispatch env st (command # args) = Threw e st'"
  shows "handleUserInput env st inputs =
           printProptForCommand (printCurrentWorkDir
             (showOperationFailedMessage (message e) st'))
       \<and> terminal (handleUserInput env st inputs) = terminal st' @
           [Written ([CHR 0x1B] @ ''[31mOperation failed: '' @ message e @ [CHR 0x1B] @ ''[0m''
                      @ [CHR 0x0A]),
            Written ([CHR 0x1B] @ ''[33mYou are currently in '' @ currentWorkDir st' @ [CHR 0x1B]
                      @ ''[0m'' @ [CHR 0x0A]),
            Written (''> Print command:'' @ [CHR 0x0A])]
       \<and> exited (handleUserInput env st inputs) = exited st'"
  using assms by (simp add: handleUserInput_def writer_defs Let_def)

lemma returned_command_is_followed_by_prompt:
  assumes "exited st = None" and "\<not> ignoreStdin st"
    and "getCommandWithParameters inputs = command # args"
    and "dispatch env st (command # args) = Returned st'"
  shows "terminal (handleUserInput env st inputs) = terminal st' @
           [Written ([CHR 0x1B] @ ''[33mYou are currently in '' @ currentWorkDir st' @ [CHR 0x1B]
                      @ ''[0m'' @ [CHR 0x0A]),
            Written (''> Print command:'' @ [CHR 0x0A])]"
  using assms by (simp add: handleUserInput_def writer_defs Let_def)

text \<open>
  C8. The claim: no error of a command ends the session, and every dispatch is followed
  by the current directory and the prompt. In the example session \<open>cp a.txt docs\<close> passes
  the validation (\<open>docs\<close> is a directory, not a file), the write stream on \<open>docs\<close>
  emits \<open>error\<close> (EISDIR), \<open>#createCopyingPromise\<close> has registered no listener for it,
  and the process ends: nothing is printed, neither an error line nor the current
  directory nor the prompt.
\<close>

theorem copyFile_into_directory_ends_process:
  "handleUserInput env exampleSession ''cp a.txt docs'' =
     exampleSession\<lparr>exited := Some (UncaughtException
        (SystemError EISDIR ''open'' ''/home/user/docs''))\<rparr>"
  by (simp add: handleUserInput_def tokens_cp_a_docs exampleSession_def newFileManager_def
      dispatch_def COMMANDS_defs copyFile_def createCopyingPromise_def ifFileOK_def
      ifAbsolutePathOK_def resolve_examples dirname_examples recode_41 lower_home_user
      startsWith_def path_isAbsolute_def unbraketString_def charIsBracket_def fs_defs
      exampleFiles_def unhandledError_def Let_def)

section \<open>Validation\<close>

lemma dirname_prefix:
  assumes "path_isAbsolute p"
  shows "prefix (path_dirname p) p"
proof -
  from assms obtain cs where p: "p = CHR ''/'' # cs"
    by (cases p) (auto simp add: path_isAbsolute_def)
  define r where "r = dropWhile (\<lambda>c. c \<noteq> CHR ''/'') (dropWhile (\<lambda>c. c = CHR ''/'') (rev cs))"
  have "suffix r (dropWhile (\<lambda>c. c = CHR ''/'') (rev cs))"
    unfolding r_def by (rule suffix_dropWhile)
  moreover have "suffix (dropWhile (\<lambda>c. c = CHR ''/'') (rev cs)) (rev cs)"
    by (rule suffix_dropWhile)
  ultimately have suf: "suffix r (rev cs)"
    by (rule suffix_order.trans)
  have tl_suf: "suffix (tl r) (rev cs)"
    using suffix_tl suf by (rule suffix_order.trans)
  have pre_tl: "prefix (rev (tl r)) cs"
    using tl_suf by (simp add: suffix_to_prefix)
  have hd_r: "r \<noteq> [] \<Longrightarrow> hd r = CHR ''/''"
    unfolding r_def using hd_dropWhile [of "\<lambda>c. c \<noteq> CHR ''/''"] by fastforce
  show ?thesis
  proof (cases "r = []")
    case True
    then show ?thesis
      using p by (simp add: path_dirname_def r_def [symmetric] Let_def)
  next
    case False
    show ?thesis
    proof (cases "length r = 1")
      case True
      with hd_r False have "r = ''/''"
        by (cases r) auto
      with suf have "prefix ''/'' cs"
        by (simp add: suffix_to_prefix)
      then show ?thesis
        using p False True by (simp add: path_dirname_def r_def [symmetric] Let_def)
    next
      case False
      then show ?thesis
        using p \<open>r \<noteq> []\<close> pre_tl by (simp add: path_dirname_def r_def [symmetric] Let_def)
    qed
  qed
qed
lemma startsWith_dirname:
  assumes "path_isAbsolute p"
    and "startsWith (toLowerCase (path_dirname p)) root"
  shows "startsWith (toLowerCase p) root"
proof -
  have "prefix (toLowerCase (path_dirname p)) (toLowerCase p)"
    unfolding toLowerCase_def using assms(1) by (intro map_mono_prefix dirname_prefix)
  with assms(2) show ?thesis
    unfolding startsWith_def by (rule prefix_order.trans)
qed

lemma ifAbsolutePathOK_outside:
  assumes "path_isAbsolute p"
    and "\<not> startsWith (toLowerCase p) (toLowerCase (rootWorkDir st))"
  shows "ifAbsolutePathOK st p True =
           (if isDirectory (files st) p then Inl OutsideRoot else Inl (NotFoundDirectory p))"
  using assms by (auto simp add: ifAbsolutePathOK_def path_isAbsolute_def)

lemma ifAbsolutePathOK_dirname_fails:
  assumes "\<not> startsWith (toLowerCase p) (toLowerCase (rootWorkDir st))"
  shows "isl (ifAbsolutePathOK st (path_dirname p) True)"
proof (cases "path_isAbsolute p")
  case True
  with assms have "\<not> startsWith (toLowerCase (path_dirname p)) (toLowerCase (rootWorkDir st))"
    using startsWith_dirname by blast
  then show ?thesis
    by (simp add: ifAbsolutePathOK_def)
next
  case False
  then have "\<not> path_isAbsolute (path_dirname p)"
    by (cases p) (auto simp add: path_isAbsolute_def path_dirname_def Let_def)
  then show ?thesis
    by (simp add: ifAbsolutePathOK_def)
qed


text \<open>
  C2, as the claim states it: whenever the resolved path does not start with the root
  directory, validation fails with \<open>OutsideRoot\<close>, whether the path exists or not. In
  the example session \<open>../../nowhere\<close> resolves to \<open>/nowhere\<close>, which does not start
  with \<open>/home/user\<close> and does not exist: \<open>#ifAbsolutePathOK\<close> tests existence first
  and fails with \<open>NotFoundDirectory\<close>, not with \<open>OutsideRoot\<close>.
\<close>

theorem validation_order_counterexample:
  "\<not> startsWith (toLowerCase (path_resolve ''/'' (currentWorkDir exampleSession) ''../../nowhere''))
        (toLowerCase (rootWorkDir exampleSession))
   \<and> ifAbsolutePathOK exampleSession
        (path_resolve ''/'' (currentWorkDir exampleSession) ''../../nowhere'') True
       = Inl (NotFoundDirectory ''/nowhere'')
   \<and> ifAbsolutePathOK exampleSession
        (path_resolve ''/'' (currentWorkDir exampleSession) ''../../nowhere'') True
       \<noteq> Inl OutsideRoot"
  by (simp add: exampleSession_def newFileManager_def path_resolve_def ifAbsolutePathOK_def
      path_isAbsolute_def isDirectory_def stat_def exampleFiles_def toLowerCase_def lowerChar_def
      startsWith_def)

lemma isDirectory_not_isFile: "isDirectory fs p \<Longrightarrow> \<not> isFile fs p"
  by (simp add: isDirectory_def isFile_def split: option.splits node.splits)

lemma dirname_absolute:
  assumes "path_isAbsolute p"
  shows "path_isAbsolute (path_dirname p)"
  using assms by (cases p) (auto simp add: path_isAbsolute_def path_dirname_def Let_def)

lemma ifAbsolutePathOK_dirname_outside:
  assumes "path_isAbsolute p"
    and "\<not> startsWith (toLowerCase p) (toLowerCase (rootWorkDir st))"
  shows "ifAbsolutePathOK st (path_dirname p) True =
           (if isDirectory (files st) (path_dirname p) then Inl OutsideRoot
            else Inl (NotFoundDirectory (path_dirname p)))"
proof -
  have "\<not> startsWith (toLowerCase (path_dirname p)) (toLowerCase (rootWorkDir st))"
    using assms startsWith_dirname by blast
  with dirname_absolute [OF assms(1)] show ?thesis
    by (rule ifAbsolutePathOK_outside)
qed

text \<open>
  C2, amended: when resolving \<open>P\<close> against the current directory yields an absolute path
  that does not start with the root directory (compared without regard to case),
  validation never passes, and the error is that of the first check that fails.
  \<open>#ifAbsolutePathOK\<close> on the resolved path, as \<open>change-dir\<close> calls it, fails with
  \<open>NotFoundDirectory\<close> when the path is no existing directory and with \<open>OutsideRoot\<close>
  when it is one. \<open>#ifFileOK\<close> on \<open>P\<close> fails with \<open>InvalidArgumentFile\<close> when \<open>P\<close> is
  empty, else with \<open>NotFoundFile\<close> when existence is checked and the path is no file,
  else with \<open>AlreadyExists\<close> when non-existence is checked and the path is a file, else
  with \<open>NotFoundDirectory\<close> when the parent is no existing directory, and with
  \<open>OutsideRoot\<close> in every other case.
\<close>

theorem outside_root_never_validates:
  assumes "path_isAbsolute (path_resolve (processCwd env) (currentWorkDir st) P)"
    and "\<not> startsWith (toLowerCase (path_resolve (processCwd env) (currentWorkDir st) P))
              (toLowerCase (rootWorkDir st))"
  shows "ifAbsolutePathOK st (path_resolve (processCwd env) (currentWorkDir st) P) True =
           (if isDirectory (files st) (path_resolve (processCwd env) (currentWorkDir st) P)
            then Inl OutsideRoot
            else Inl (NotFoundDirectory (path_resolve (processCwd env) (currentWorkDir st) P)))
         \<and> isl (ifFileOK env st P checkFileExistance checkFileNonExistance)
         \<and> ifFileOK env st P checkFileExistance checkFileNonExistance =
           (if P = [] then Inl InvalidArgumentFile
            else if checkFileExistance
                 \<and> \<not> isFile (files st) (path_resolve (processCwd env) (currentWorkDir st) P)
              then Inl (NotFoundFile (path_resolve (processCwd env) (currentWorkDir st) P))
            else if checkFileNonExistance
                 \<and> isFile (files st) (path_resolve (processCwd env) (currentWorkDir st) P)
              then Inl (AlreadyExists (path_resolve (processCwd env) (currentWorkDir st) P))
            else if \<not> isDirectory (files st)
                       (path_dirname (path_resolve (processCwd env) (currentWorkDir st) P))
              then Inl (NotFoundDirectory
                         (path_dirname (path_resolve (processCwd env) (currentWorkDir st) P)))
            else Inl OutsideRoot)"
proof (intro conjI)
  show "ifAbsolutePathOK st (path_resolve (processCwd env) (currentWorkDir st) P) True =
           (if isDirectory (files st) (path_resolve (processCwd env) (currentWorkDir st) P)
            then Inl OutsideRoot
            else Inl (NotFoundDirectory (path_resolve (processCwd env) (currentWorkDir st) P)))"
    using assms by (rule ifAbsolutePathOK_outside)
  show "isl (ifFileOK env st P checkFileExistance checkFileNonExistance)"
    using ifAbsolutePathOK_dirname_fails [OF assms(2)]
    by (simp add: ifFileOK_def Let_def)
  show "ifFileOK env st P checkFileExistance checkFileNonExistance =
           (if P = [] then Inl InvalidArgumentFile
            else if checkFileExistance
                 \<and> \<not> isFile (files st) (path_resolve (processCwd env) (currentWorkDir st) P)
              then Inl (NotFoundFile (path_resolve (processCwd env) (currentWorkDir st) P))
            else if checkFileNonExistance
                 \<and> isFile (files st) (path_resolve (processCwd env) (currentWorkDir st) P)
              then Inl (AlreadyExists (path_resolve (processCwd env) (currentWorkDir st) P))
            else if \<not> isDirectory (files st)
                       (path_dirname (path_resolve (processCwd env) (currentWorkDir st) P))
              then Inl (NotFoundDirectory
                         (path_dirname (path_resolve (processCwd env) (currentWorkDir st) P)))
            else Inl OutsideRoot)"
    using ifAbsolutePathOK_dirname_outside [OF assms]
    by (simp add: ifFileOK_def Let_def)
qed

theorem outside_root_never_validates_witness:
  "path_resolve (processCwd exampleHost) (currentWorkDir exampleSession) ''..'' = ''/home''
   \<and> path_isAbsolute ''/home''
   \<and> \<not> startsWith (toLowerCase ''/home'') (toLowerCase (rootWorkDir exampleSession))
   \<and> isDirectory (files exampleSession) ''/home''
   \<and> ifAbsolutePathOK exampleSession ''/home'' True = Inl OutsideRoot
   \<and> isl (ifFileOK exampleHost exampleSession ''..'' True False)
   \<and> ifFileOK exampleHost exampleSession ''..'' True False = Inl (NotFoundFile ''/home'')
   \<and> path_resolve (processCwd exampleHost) (currentWorkDir exampleSession) ''../../nowhere''
       = ''/nowhere''
   \<and> ifFileOK exampleHost exampleSession ''../../nowhere'' False True = Inl OutsideRoot"
proof -
  have r: "path_resolve (processCwd exampleHost) (currentWorkDir exampleSession) ''..'' = ''/home''"
    by (simp add: exampleSession_def newFileManager_def path_resolve_def)
  have a: "path_isAbsolute ''/home''"
    by (simp add: path_isAbsolute_def)
  have o: "\<not> startsWith (toLowerCase ''/home'') (toLowerCase (rootWorkDir exampleSession))"
    by (simp add: exampleSession_def newFileManager_def startsWith_def toLowerCase_def lowerChar_def)
  have d: "isDirectory (files exampleSession) ''/home''"
    by (simp add: exampleSession_def newFileManager_def exampleFiles_def isDirectory_def stat_def)
  have f: "\<not> isFile (files exampleSession) ''/home''"
    using d by (rule isDirectory_not_isFile)
  have r2: "path_resolve (processCwd exampleHost) (currentWorkDir exampleSession) ''../../nowhere''
      = ''/nowhere''"
    by (simp add: exampleSession_def newFileManager_def path_resolve_def)
  have a2: "path_isAbsolute ''/nowhere''"
    by (simp add: path_isAbsolute_def)
  have o2: "\<not> startsWith (toLowerCase ''/nowhere'') (toLowerCase (rootWorkDir exampleSession))"
    by (simp add: exampleSession_def newFileManager_def startsWith_def toLowerCase_def lowerChar_def)
  have f2: "\<not> isFile (files exampleSession) ''/nowhere''"
    by (simp add: exampleSession_def newFileManager_def exampleFiles_def isFile_def stat_def)
  have d2: "path_dirname ''/nowhere'' = ''/''" "isDirectory (files exampleSession) ''/''"
    by (simp_all add: path_dirname_def exampleSession_def newFileManager_def exampleFiles_def
        isDirectory_def stat_def)
  have w1: "ifAbsolutePathOK exampleSession ''/home'' True = Inl OutsideRoot
      \<and> isl (ifFileOK exampleHost exampleSession ''..'' True False)
      \<and> ifFileOK exampleHost exampleSession ''..'' True False = Inl (NotFoundFile ''/home'')"
    using outside_root_never_validates [of exampleHost exampleSession "''..''" True False]
    unfolding r using a o d f by simp
  have w2: "ifFileOK exampleHost exampleSession ''../../nowhere'' False True = Inl OutsideRoot"
    using outside_root_never_validates [of exampleHost exampleSession "''../../nowhere''" False True]
    unfolding r2 using a2 o2 f2 d2 by simp
  show ?thesis
    using r a o d w1 r2 w2 by (intro conjI) simp_all
qed

lemma ifAbsolutePathOK_not_AlreadyExists: "ifAbsolutePathOK st p check \<noteq> Inl (AlreadyExists q)"
  by (simp add: ifAbsolutePathOK_def)

text \<open>
  C10. The non-existence check of \<open>#ifFileOK\<close> (existence not checked, non-existence
  checked), the call \<open>create-file\<close>, \<open>rename-file\<close>, \<open>copy-file\<close>, \<open>move-file\<close>,
  \<open>compress-file\<close> and \<open>decompress-file\<close> make for their destination, fails with
  \<open>AlreadyExists\<close> exactly when the path is set and resolves to a regular file. When it
  resolves to a directory the check passes on to the validation of the parent directory,
  and no \<open>AlreadyExists\<close> is raised.
\<close>

theorem nonexistence_check_rejects_files_only:
  "((\<exists>p. ifFileOK env st P False True = Inl (AlreadyExists p))
      = (P \<noteq> [] \<and> isFile (files st) (path_resolve (processCwd env) (currentWorkDir st) P)))
   \<and> (P \<noteq> [] \<and> isDirectory (files st) (path_resolve (processCwd env) (currentWorkDir st) P)
        \<longrightarrow> ifFileOK env st P False True
              = ifAbsolutePathOK st
                  (path_dirname (path_resolve (processCwd env) (currentWorkDir st) P)) True
            \<and> (\<forall>p. ifFileOK env st P False True \<noteq> Inl (AlreadyExists p)))"
  using isDirectory_not_isFile [of "files st" "path_resolve (processCwd env) (currentWorkDir st) P"]
  by (auto simp add: ifFileOK_def Let_def ifAbsolutePathOK_not_AlreadyExists)

theorem nonexistence_check_rejects_files_only_witness:
  "isDirectory (files exampleSession)
     (path_resolve (processCwd exampleHost) (currentWorkDir exampleSession) ''docs'')
   \<and> ifFileOK exampleHost exampleSession ''docs'' False True = Inr ()
   \<and> isFile (files exampleSession)
     (path_resolve (processCwd exampleHost) (currentWorkDir exampleSession) ''a.txt'')
   \<and> ifFileOK exampleHost exampleSession ''a.txt'' False True
       = Inl (AlreadyExists ''/home/user/a.txt'')"
proof -
  have r: "path_resolve (processCwd exampleHost) (currentWorkDir exampleSession) ''docs''
             = ''/home/user/docs''"
    "path_resolve (processCwd exampleHost) (currentWorkDir exampleSession) ''a.txt''
             = ''/home/user/a.txt''"
    by (simp_all add: exampleSession_def newFileManager_def path_resolve_def)
  have d: "isDirectory (files exampleSession) ''/home/user/docs''"
    and f: "isFile (files exampleSession) ''/home/user/a.txt''"
    by (simp_all add: exampleSession_def newFileManager_def exampleFiles_def isDirectory_def
        isFile_def stat_def)
  have dir: "ifAbsolutePathOK exampleSession (path_dirname ''/home/user/docs'') True = Inr ()"
    by (simp add: ifAbsolutePathOK_def path_dirname_def path_isAbsolute_def isDirectory_def
        stat_def exampleSession_def newFileManager_def exampleFiles_def startsWith_def
        toLowerCase_def lowerChar_def)
  have "ifFileOK exampleHost exampleSession ''docs'' False True = Inr ()"
    using nonexistence_check_rejects_files_only [of exampleHost exampleSession "''docs''"] d dir
    unfolding r by simp
  moreover have "\<exists>p. ifFileOK exampleHost exampleSession ''a.txt'' False True
                      = Inl (AlreadyExists p)"
    using nonexistence_check_rejects_files_only [of exampleHost exampleSession "''a.txt''"] f
    unfolding r by simp
  then have "ifFileOK exampleHost exampleSession ''a.txt'' False True
               = Inl (AlreadyExists ''/home/user/a.txt'')"
    unfolding ifFileOK_def Let_def r by (auto split: if_splits simp add: ifAbsolutePathOK_not_AlreadyExists)
  ultimately show ?thesis
    using d f unfolding r by simp
qed

section \<open>Arity\<close>

lemma arity_cases:
  assumes "arity command = Some n"
  shows "(command = COMMANDS_exit \<and> n = 0) \<or> (command = COMMANDS_goUpper \<and> n = 0)
       \<or> (command = COMMANDS_changeDir \<and> n = 1) \<or> (command = COMMANDS_listDir \<and> n = 0)
       \<or> (command = COMMANDS_printFileContent \<and> n = 1)
       \<or> (command = COMMANDS_createEmptyFile \<and> n = 1)
       \<or> (command = COMMANDS_renameFile \<and> n = 2) \<or> (command = COMMANDS_copyFile \<and> n = 2)
       \<or> (command = COMMANDS_moveFile \<and> n = 2) \<or> (command = COMMANDS_deleteFile \<and> n = 1)
       \<or> (command = COMMANDS_os \<and> n = 1) \<or> (command = COMMANDS_getFileHash \<and> n = 1)
       \<or> (command = COMMANDS_compressFile \<and> n = 2)
       \<or> (command = COMMANDS_decompressFile \<and> n = 2)"
  using assms by (simp add: arity_def split: if_splits)

lemma getOSCommandParameter_wrong_arity:
  assumes "length args \<noteq> 1"
  shows "getOSCommandParameter (command # args) = None"
proof (cases args)
  case Nil
  then show ?thesis
    by (simp add: getOSCommandParameter_def)
next
  case (Cons a rest)
  with assms have "rest \<noteq> []"
    by auto
  with Cons show ?thesis
    by (simp add: getOSCommandParameter_def)
qed

lemma dispatch_wrong_arity:
  assumes "arity command = Some n" and "length args \<noteq> n"
  shows "dispatch env st (command # args) = Returned (showInvalidInputMessage st)"
  using arity_cases [OF assms(1)] assms(2)
  by (elim disjE conjE;
      simp add: dispatch_def COMMANDS_defs exit_def goUpper_def changeDir_def
        listDir_def printFileContent_def createEmptyFile_def renameFile_def copyFile_def
        moveFile_def deleteFile_def osCommand_def getOSCommandParameter_wrong_arity getFileHash_def
        compressFile_def decompressFile_def Let_def)

text \<open>
  C7. In a running session, a line whose first word is a command of the table and whose
  number of arguments is not the command's arity makes the dispatcher return with the
  message \<open>Invalid input\<close> and nothing else: the current directory and the files are
  what they were, and the terminal gains the message (as an error, not as a failed
  operation), the current directory and the prompt. For \<open>cd\<close> the arity is 1, so this
  covers \<open>change-dir\<close> with no argument and with two or more.
\<close>

theorem wrong_arity_is_invalid_input:
  assumes "exited st = None" and "\<not> ignoreStdin st"
    and "getCommandWithParameters inputs = command # args"
    and "arity command = Some n" and "length args \<noteq> n"
  shows "dispatch env st (command # args) = Returned (showInvalidInputMessage st)
    \<and> handleUserInput env st inputs =
        printProptForCommand (printCurrentWorkDir (showInvalidInputMessage st))
    \<and> currentWorkDir (handleUserInput env st inputs) = currentWorkDir st
    \<and> files (handleUserInput env st inputs) = files st
    \<and> exited (handleUserInput env st inputs) = None
    \<and> terminal (handleUserInput env st inputs) = terminal st @
        [Written ([CHR 0x1B] @ ''[31mInvalid input'' @ [CHR 0x1B] @ ''[0m'' @ [CHR 0x0A]),
         Written ([CHR 0x1B] @ ''[33mYou are currently in '' @ currentWorkDir st @ [CHR 0x1B]
                   @ ''[0m'' @ [CHR 0x0A]),
         Written (''> Print command:'' @ [CHR 0x0A])]"
proof -
  have d: "dispatch env st (command # args) = Returned (showInvalidInputMessage st)"
    using assms(4,5) by (rule dispatch_wrong_arity)
  have h: "handleUserInput env st inputs =
        printProptForCommand (printCurrentWorkDir (showInvalidInputMessage st))"
    using assms(1,2,3) d by (simp add: handleUserInput_def)
  show ?thesis
    using assms(1) d h by (simp add: writer_defs Let_def)
qed

theorem wrong_arity_is_invalid_input_witness:
  "getCommandWithParameters ''cd'' = [''cd'']
   \<and> getCommandWithParameters ''cd docs docs'' = [''cd'', ''docs'', ''docs'']
   \<and> currentWorkDir (handleUserInput exampleHost exampleSession ''cd'') = ''/home/user''
   \<and> currentWorkDir (handleUserInput exampleHost exampleSession ''cd docs docs'') = ''/home/user''
   \<and> terminal (handleUserInput exampleHost exampleSession ''cd docs docs'') =
        [Written ([CHR 0x1B] @ ''[31mInvalid input'' @ [CHR 0x1B] @ ''[0m'' @ [CHR 0x0A]),
         Written ([CHR 0x1B] @ ''[33mYou are currently in /home/user'' @ [CHR 0x1B]
                   @ ''[0m'' @ [CHR 0x0A]),
         Written (''> Print command:'' @ [CHR 0x0A])]"
proof -
  have t0: "getCommandWithParameters ''cd'' = ''cd'' # []"
    by code_simp
  have t2: "getCommandWithParameters ''cd docs docs'' = ''cd'' # [''docs'', ''docs'']"
    by code_simp
  have a: "arity ''cd'' = Some 1"
    by (simp add: arity_def COMMANDS_defs)
  have s: "exited exampleSession = None" "\<not> ignoreStdin exampleSession"
    by (simp_all add: exampleSession_def newFileManager_def)
  have c: "currentWorkDir exampleSession = ''/home/user''" "terminal exampleSession = []"
    by (simp_all add: exampleSession_def newFileManager_def)
  have n0: "length ([] :: string list) \<noteq> 1" and n2: "length [''docs'', ''docs''] \<noteq> 1"
    by simp_all
  have w0: "currentWorkDir (handleUserInput exampleHost exampleSession ''cd'')
              = currentWorkDir exampleSession"
    using wrong_arity_is_invalid_input [OF s t0 a n0, of exampleHost] by blast
  have w2: "currentWorkDir (handleUserInput exampleHost exampleSession ''cd docs docs'')
              = currentWorkDir exampleSession
            \<and> terminal (handleUserInput exampleHost exampleSession ''cd docs docs'') =
              terminal exampleSession @
              [Written ([CHR 0x1B] @ ''[31mInvalid input'' @ [CHR 0x1B] @ ''[0m'' @ [CHR 0x0A]),
               Written ([CHR 0x1B] @ ''[33mYou are currently in '' @ currentWorkDir exampleSession
                         @ [CHR 0x1B] @ ''[0m'' @ [CHR 0x0A]),
               Written (''> Print command:'' @ [CHR 0x0A])]"
    using wrong_arity_is_invalid_input [OF s t2 a n2, of exampleHost] by blast
  show ?thesis
    using t0 t2 w0 w2 unfolding c by simp
qed

section \<open>Tokens and brackets\<close>

lemma lower_docs: "toLowerCase ''/home/user/docs'' = ''/home/user/docs''"
  by code_simp

lemma tokens_cp_quoted:
  "getCommandWithParameters ''cp 'a b.txt' c.txt''
     = [''cp'', [CHR 0x27] @ ''a b.txt'' @ [CHR 0x27], ''c.txt'']"
  by code_simp

lemma tokens_cd_quoted:
  "getCommandWithParameters (''cd '' @ [CHR 0x27] @ ''docs'' @ [CHR 0x27])
     = [''cd'', [CHR 0x27] @ ''docs'' @ [CHR 0x27]]"
  by code_simp

lemma tokens_quoted_ls:
  "getCommandWithParameters ([CHR 0x27] @ ''ls'' @ [CHR 0x27]) = [[CHR 0x27] @ ''ls'' @ [CHR 0x27]]"
  by code_simp

text \<open>
  C3, as the claim states it: the tokens of \<open>cp 'a b.txt' c.txt\<close> are \<open>cp\<close>,
  \<open>a b.txt\<close> and \<open>c.txt\<close>, the brackets of every quoted token being stripped before
  a handler sees the tokens. \<open>#getCommandWithParameters\<close> keeps the brackets in its
  tokens, and the dispatcher compares the first token as it is: the line \<open>'ls'\<close> has the
  one token \<open>'ls'\<close>, brackets included, which is no command, while \<open>ls\<close> lists the
  directory.
\<close>

theorem tokens_keep_brackets_counterexample:
  "getCommandWithParameters ''cp 'a b.txt' c.txt''
     = [''cp'', [CHR 0x27] @ ''a b.txt'' @ [CHR 0x27], ''c.txt'']
   \<and> getCommandWithParameters ''cp 'a b.txt' c.txt'' \<noteq> [''cp'', ''a b.txt'', ''c.txt'']
   \<and> getCommandWithParameters ([CHR 0x27] @ ''ls'' @ [CHR 0x27]) = [[CHR 0x27] @ ''ls'' @ [CHR 0x27]]
   \<and> dispatch exampleHost exampleSession (getCommandWithParameters ([CHR 0x27] @ ''ls'' @ [CHR 0x27]))
       = Returned (showInvalidInputMessage exampleSession)
   \<and> dispatch exampleHost exampleSession (getCommandWithParameters ([CHR 0x27] @ ''ls'' @ [CHR 0x27]))
       \<noteq> dispatch exampleHost exampleSession [''ls'']"
proof -
  have l: "dispatch exampleHost exampleSession [''ls''] = Returned (printTable
      [[''docs'', ''directory''], [''a.txt'', ''file''], [''b.txt'', ''file'']]
      [''Name'', ''Type''] exampleSession)"
    by (simp add: dispatch_def COMMANDS_defs listDir_def readdir_example listedObjects_def
        sortBy_def compareObjects_def name_def jsLess_def join_examples kinds_example
        exampleSession_def newFileManager_def Let_def)
  have q: "dispatch exampleHost exampleSession [[CHR 0x27] @ ''ls'' @ [CHR 0x27]]
             = Returned (showInvalidInputMessage exampleSession)"
    by (simp add: dispatch_def COMMANDS_defs Let_def)
  have d: "showInvalidInputMessage exampleSession \<noteq> printTable
      [[''docs'', ''directory''], [''a.txt'', ''file''], [''b.txt'', ''file'']]
      [''Name'', ''Type''] exampleSession"
  proof
    assume "showInvalidInputMessage exampleSession = printTable
      [[''docs'', ''directory''], [''a.txt'', ''file''], [''b.txt'', ''file'']]
      [''Name'', ''Type''] exampleSession"
    then have "terminal (showInvalidInputMessage exampleSession) = terminal (printTable
      [[''docs'', ''directory''], [''a.txt'', ''file''], [''b.txt'', ''file'']]
      [''Name'', ''Type''] exampleSession)"
      by simp
    then show False
      by (simp add: writer_defs Let_def)
  qed
  show ?thesis
    using tokens_cp_quoted tokens_quoted_ls l q d by simp
qed

text \<open>
  C3, amended: for every line the tokens are the non-empty runs between the unquoted
  spaces of the trimmed line, brackets included: \<open>cp 'a b.txt' c.txt\<close> gives \<open>cp\<close>,
  \<open>'a b.txt'\<close>, \<open>c.txt\<close>. The handlers receive these tokens and strip the brackets of
  a path argument themselves, which turns the tokens of that line into \<open>cp\<close>,
  \<open>a b.txt\<close>, \<open>c.txt\<close>; the command word is compared as typed. The empty line has
  no tokens, and a line with an unmatched bracket (\<open>cat 'a b\<close>) has tokens like any
  other. In the example session \<open>cd 'docs'\<close> enters \<open>docs\<close>, and \<open>'ls'\<close> is no
  command.
\<close>

theorem tokens_split_on_unquoted_spaces:
  "getCommandWithParameters line = spec_tokenize line
   \<and> getCommandWithParameters ''cp 'a b.txt' c.txt''
       = [''cp'', [CHR 0x27] @ ''a b.txt'' @ [CHR 0x27], ''c.txt'']
   \<and> map unbraketString (getCommandWithParameters ''cp 'a b.txt' c.txt'')
       = [''cp'', ''a b.txt'', ''c.txt'']
   \<and> getCommandWithParameters [] = []
   \<and> getCommandWithParameters ''cat 'a b'' = [''cat'', [CHR 0x27] @ ''a b'']
   \<and> currentWorkDir (handleUserInput env exampleSession (''cd '' @ [CHR 0x27] @ ''docs'' @ [CHR 0x27]))
       = ''/home/user/docs''
   \<and> handleUserInput env exampleSession ([CHR 0x27] @ ''ls'' @ [CHR 0x27])
       = printProptForCommand (printCurrentWorkDir (showInvalidInputMessage exampleSession))"
proof (intro conjI)
  show "getCommandWithParameters line = spec_tokenize line"
    by (rule getCommandWithParameters_spec)
  show "getCommandWithParameters ''cp 'a b.txt' c.txt''
       = [''cp'', [CHR 0x27] @ ''a b.txt'' @ [CHR 0x27], ''c.txt'']"
    by (rule tokens_cp_quoted)
  show "map unbraketString (getCommandWithParameters ''cp 'a b.txt' c.txt'')
       = [''cp'', ''a b.txt'', ''c.txt'']"
    by (simp add: tokens_cp_quoted unbraketString_def charIsBracket_def)
  show "getCommandWithParameters [] = []"
    by (simp add: getCommandWithParameters_def)
  show "getCommandWithParameters ''cat 'a b'' = [''cat'', [CHR 0x27] @ ''a b'']"
    by code_simp
  show "currentWorkDir (handleUserInput env exampleSession (''cd '' @ [CHR 0x27] @ ''docs'' @ [CHR 0x27]))
       = ''/home/user/docs''"
    by (simp add: handleUserInput_def tokens_cd_quoted [simplified] exampleSession_def newFileManager_def
        dispatch_def COMMANDS_defs changeDir_def path_resolve_def ifAbsolutePathOK_def
        path_isAbsolute_def isDirectory_def stat_def exampleFiles_def lower_home_user lower_docs
        startsWith_def unbraketString_def charIsBracket_def writer_defs Let_def)
  show "handleUserInput env exampleSession ([CHR 0x27] @ ''ls'' @ [CHR 0x27])
       = printProptForCommand (printCurrentWorkDir (showInvalidInputMessage exampleSession))"
    by (simp add: handleUserInput_def tokens_quoted_ls [simplified] exampleSession_def newFileManager_def
        dispatch_def COMMANDS_defs Let_def)
qed

section \<open>UTF-8: decoding what the encoder wrote\<close>

lemma unat_byte: "n < 256 \<Longrightarrow> unat (of_nat n :: byte) = n"
  by (simp add: unat_of_nat)

lemma decode_one_byte:
  assumes "a < 128"
  shows "utf8_decode_loop (of_nat a # rest) 0 0 0x80 0xBF = a # utf8_decode_loop rest 0 0 0x80 0xBF"
proof -
  have "unat (of_nat a :: byte) = a"
    by (rule unat_byte) (use assms in simp)
  then show ?thesis
    using assms by (simp add: Let_def)
qed

lemma decode_two_bytes:
  assumes "2 \<le> a" and "a < 32" and "d < 64"
  shows "utf8_decode_loop (of_nat (0xC0 + a) # of_nat (0x80 + d) # rest) 0 0 0x80 0xBF
           = (a * 64 + d) # utf8_decode_loop rest 0 0 0x80 0xBF"
proof -
  have "unat (of_nat (0xC0 + a) :: byte) = 0xC0 + a" and "unat (of_nat (0x80 + d) :: byte) = 0x80 + d"
    by (rule unat_byte, use assms in simp)+
  then show ?thesis
    using assms by (simp add: Let_def)
qed

lemma decode_three_bytes:
  assumes "a < 16" and "b < 64" and "d < 64"
    and "a = 0 \<Longrightarrow> 32 \<le> b" and "a = 13 \<Longrightarrow> b < 32"
  shows "utf8_decode_loop (of_nat (0xE0 + a) # of_nat (0x80 + b) # of_nat (0x80 + d) # rest)
             0 0 0x80 0xBF
           = (a * 4096 + b * 64 + d) # utf8_decode_loop rest 0 0 0x80 0xBF"
proof -
  have "unat (of_nat (0xE0 + a) :: byte) = 0xE0 + a" and "unat (of_nat (0x80 + b) :: byte) = 0x80 + b"
    and "unat (of_nat (0x80 + d) :: byte) = 0x80 + d"
    by (rule unat_byte, use assms in simp)+
  then show ?thesis
    using assms by (auto simp add: Let_def)
qed

lemma decode_four_bytes:
  assumes "a < 5" and "b < 64" and "c < 64" and "d < 64"
    and "a = 0 \<Longrightarrow> 16 \<le> b" and "a = 4 \<Longrightarrow> b < 16"
  shows "utf8_decode_loop (of_nat (0xF0 + a) # of_nat (0x80 + b) # of_nat (0x80 + c)
             # of_nat (0x80 + d) # rest) 0 0 0x80 0xBF
           = (a * 262144 + b * 4096 + c * 64 + d) # utf8_decode_loop rest 0 0 0x80 0xBF"
proof -
  have "unat (of_nat (0xF0 + a) :: byte) = 0xF0 + a" and "unat (of_nat (0x80 + b) :: byte) = 0x80 + b"
    and "unat (of_nat (0x80 + c) :: byte) = 0x80 + c" and "unat (of_nat (0x80 + d) :: byte) = 0x80 + d"
    by (rule unat_byte, use assms in simp)+
  then show ?thesis
    using assms by (auto simp add: Let_def)
qed
lemma decode_encoded_char:
  assumes "isScalarValue c"
  shows "utf8_decode_loop (utf8_encode_char c @ rest) 0 0 0x80 0xBF
           = c # utf8_decode_loop rest 0 0 0x80 0xBF"
proof -
  define D where "D = c mod 64"
  define q where "q = c div 64"
  define C where "C = q mod 64"
  define p where "p = q div 64"
  define B where "B = p mod 64"
  define A where "A = p div 64"
  have cq: "c = q * 64 + D" and D: "D < 64"
    by (simp_all add: q_def D_def)
  have qp: "q = p * 64 + C" and C: "C < 64"
    by (simp_all add: p_def C_def)
  have pa: "p = A * 64 + B" and B: "B < 64"
    by (simp_all add: A_def B_def)
  have d4096: "c div 4096 = p"
    unfolding p_def q_def using div_mult2_eq [of c 64 64] by simp
  have d262144: "c div 262144 = A"
    unfolding A_def d4096 [symmetric] using div_mult2_eq [of c 4096 64] by simp
  have enc: "c div 64 = q" "c mod 64 = D" "q mod 64 = C" "p mod 64 = B"
    by (simp_all add: q_def D_def C_def B_def)
  have "\<not> ((0xD800 \<le> c \<and> c \<le> 0xDFFF) \<or> 0x10FFFF < c)"
    using assms unfolding isScalarValue_def by linarith
  then have encode: "utf8_encode_char c =
     (if c < 0x80 then [of_nat c]
      else if c < 0x800 then [of_nat (0xC0 + q), of_nat (0x80 + D)]
      else if c < 0x10000 then [of_nat (0xE0 + p), of_nat (0x80 + C), of_nat (0x80 + D)]
      else [of_nat (0xF0 + A), of_nat (0x80 + B), of_nat (0x80 + C), of_nat (0x80 + D)])"
    unfolding utf8_encode_char_def by (simp only: if_False Let_def enc d4096 d262144)
  consider "c < 0x80" | "0x80 \<le> c" "c < 0x800" | "0x800 \<le> c" "c < 0x10000"
    | "0x10000 \<le> c"
    by linarith
  then show ?thesis
  proof cases
    case 1
    then show ?thesis
      using decode_one_byte [of c rest] by (simp add: utf8_encode_char_def)
  next
    case 2
    have "2 \<le> q" "q < 32"
      using 2 cq D by linarith+
    then have "utf8_decode_loop (of_nat (0xC0 + q) # of_nat (0x80 + D) # rest) 0 0 0x80 0xBF
                 = (q * 64 + D) # utf8_decode_loop rest 0 0 0x80 0xBF"
      using D by (rule decode_two_bytes)
    moreover have "utf8_encode_char c = [of_nat (0xC0 + q), of_nat (0x80 + D)]"
    proof -
      have "\<not> c < 0x80" "c < 0x800"
        using 2 by simp_all
      then show ?thesis
        by (simp only: encode if_True if_False)
    qed
    ultimately show ?thesis
      using cq by simp
  next
    case 3
    have "p < 16"
      using 3 cq qp by linarith
    moreover note C D
    moreover have "p = 0 \<Longrightarrow> 32 \<le> C"
      using 3 cq qp D by linarith
    moreover have "p = 13 \<Longrightarrow> C < 32"
      using 3 assms cq qp C D unfolding isScalarValue_def by linarith
    ultimately have "utf8_decode_loop
        (of_nat (0xE0 + p) # of_nat (0x80 + C) # of_nat (0x80 + D) # rest) 0 0 0x80 0xBF
          = (p * 4096 + C * 64 + D) # utf8_decode_loop rest 0 0 0x80 0xBF"
      by (rule decode_three_bytes)
    moreover have "utf8_encode_char c
        = [of_nat (0xE0 + p), of_nat (0x80 + C), of_nat (0x80 + D)]"
    proof -
      have "\<not> c < 0x80" "\<not> c < 0x800" "c < 0x10000"
        using 3 by simp_all
      then show ?thesis
        by (simp only: encode if_True if_False)
    qed
    moreover have "c = p * 4096 + C * 64 + D"
      using cq qp by simp
    ultimately show ?thesis
      by simp
  next
    case 4
    have u: "c \<le> 0x10FFFF"
      using 4 assms unfolding isScalarValue_def by simp
    have "A < 5"
      using u cq qp pa B C D by linarith
    moreover note B C D
    moreover have "A = 0 \<Longrightarrow> 16 \<le> B"
      using 4 cq qp pa C D by linarith
    moreover have "A = 4 \<Longrightarrow> B < 16"
      using u cq qp pa B C D by linarith
    ultimately have "utf8_decode_loop
        (of_nat (0xF0 + A) # of_nat (0x80 + B) # of_nat (0x80 + C) # of_nat (0x80 + D) # rest)
           0 0 0x80 0xBF
          = (A * 262144 + B * 4096 + C * 64 + D) # utf8_decode_loop rest 0 0 0x80 0xBF"
      by (rule decode_four_bytes)
    moreover have "utf8_encode_char c
        = [of_nat (0xF0 + A), of_nat (0x80 + B), of_nat (0x80 + C), of_nat (0x80 + D)]"
    proof -
      have "\<not> c < 0x80" "\<not> c < 0x800" "\<not> c < 0x10000"
        using 4 by simp_all
      then show ?thesis
        by (simp only: encode if_True if_False)
    qed
    moreover have "c = A * 262144 + B * 4096 + C * 64 + D"
      using cq qp pa by simp
    ultimately show ?thesis
      by simp
  qed
qed

lemma utf8_decode_encode:
  assumes "list_all isScalarValue points"
  shows "utf8_decode (utf8_encode points) = points"
  unfolding utf8_decode_def using assms
proof (induction points)
  case Nil
  then show ?case
    by (simp add: utf8_encode_def)
next
  case (Cons c points)
  then have "utf8_decode_loop (utf8_encode_char c @ utf8_encode points) 0 0 0x80 0xBF
               = c # utf8_decode_loop (utf8_encode points) 0 0 0x80 0xBF"
    by (simp add: decode_encoded_char)
  with Cons show ?case
    by (simp add: utf8_encode_def)
qed

lemma recode_FFFD: "utf8_encode (utf8_decode [0xEF, 0xBF, 0xBD]) = [0xEF, 0xBF, 0xBD]"
  by (simp add: utf8_decode_def utf8_encode_def utf8_encode_char_def)

text \<open>A copy of well-formed UTF-8 text holds the bytes of the source.\<close>

lemma createCopyingPromise_exact_on_utf8:
  assumes "list_all isScalarValue points"
    and "readStream (files st) filePath = Inr (utf8_encode points)"
    and "createCopyingPromise st filePath newFilePath = Returned st'"
  shows "stat (files st') newFilePath = Some (File (utf8_encode points))"
  using createCopyingPromise_content [OF assms(2,3)] utf8_decode_encode [OF assms(1)]
  by simp

section \<open>Compressing and decompressing\<close>

text \<open>
  What the two handlers leave at the destination when they return: \<open>compressedContent\<close>
  and \<open>decompressedContent\<close> of what the source holds.
\<close>

lemma compressFile_content:
  assumes "compressFile env st [COMMANDS_compressFile, source, destination] = Returned st'"
  shows "\<exists>content.
           readStream (files st)
             (path_resolve (processCwd env) (currentWorkDir st) (unbraketString source))
             = Inr content
         \<and> stat (files st')
             (path_resolve (processCwd env) (currentWorkDir st) (unbraketString destination))
             = Some (File (compressedContent env content))"
  using assms
  by (auto simp add: compressFile_def Let_def writeStream_def openForWriting_def stat_def
      unhandledError_def update_conv' split: sum.splits if_splits option.splits node.splits)

lemma decompressFile_content:
  assumes "decompressFile env st [COMMANDS_decompressFile, source, destination] = Returned st'"
  shows "\<exists>content bytes.
           readStream (files st)
             (path_resolve (processCwd env) (currentWorkDir st) (unbraketString source))
             = Inr content
         \<and> decompressedContent env content = Some bytes
         \<and> stat (files st')
             (path_resolve (processCwd env) (currentWorkDir st) (unbraketString destination))
             = Some (File bytes)"
  using assms
  by (auto simp add: decompressFile_def Let_def openForWriting_def stat_def
      unhandledError_def update_conv' split: sum.splits if_splits option.splits node.splits)

text \<open>
  \<open>#compressFile\<close> feeds the compressor the same bytes for the content 0xFF and for
  the content 0xEF 0xBF 0xBD, so the two compressed files are equal and no decompressor
  tells them apart, whatever the codec is.
\<close>

lemma compress_not_injective:
  "\<not> (\<exists>env. \<forall>content. decompressedContent env (compressedContent env content) = Some content)"
proof
  assume "\<exists>env. \<forall>content. decompressedContent env (compressedContent env content) = Some content"
  then obtain env where
    r: "\<And>content. decompressedContent env (compressedContent env content) = Some content"
    by blast
  have "compressedContent env [0xFF] = compressedContent env [0xEF, 0xBF, 0xBD]"
    by (simp only: compressedContent_def recode_FF recode_FFFD)
  then have "decompressedContent env (compressedContent env [0xFF])
               = decompressedContent env (compressedContent env [0xEF, 0xBF, 0xBD])"
    by simp
  then have "Some [0xFF :: byte] = Some [0xEF, 0xBF, 0xBD]"
    by (simp only: r)
  then show False
    by simp
qed

text \<open>
  For content that is well-formed UTF-8 and a codec whose decompressor inverts its
  compressor, decompressing what \<open>#compressFile\<close> wrote gives the content back.
\<close>

lemma round_trip_of_utf8_text:
  assumes "\<And>bytes. brotliDecompress env (brotliCompress env bytes) = Some bytes"
    and "list_all isScalarValue points"
  shows "decompressedContent env (compressedContent env (utf8_encode points))
           = Some (utf8_encode points)"
proof -
  have "utf8_encode (utf8_decode (utf8_encode points)) = utf8_encode points"
    using assms(2) by (simp add: utf8_decode_encode)
  then show ?thesis
    by (simp add: decompressedContent_def compressedContent_def assms(1))
qed

lemma tokens_compress:
  "getCommandWithParameters ''compress b.txt b.br'' = [''compress'', ''b.txt'', ''b.br'']"
  by code_simp

lemma tokens_decompress:
  "getCommandWithParameters ''decompress b.br b2.txt'' = [''decompress'', ''b.br'', ''b2.txt'']"
  by code_simp

lemma resolve_codec_examples:
  "path_resolve pc ''/home/user'' ''b.br'' = ''/home/user/b.br''"
  "path_resolve pc ''/home/user'' ''b2.txt'' = ''/home/user/b2.txt''"
  "path_resolve pc ''/home/user'' ''/home/user/b.br'' = ''/home/user/b.br''"
  "path_resolve pc ''/home/user'' ''/home/user/b2.txt'' = ''/home/user/b2.txt''"
  by (simp_all add: path_resolve_def)

lemma dirname_codec_examples:
  "path_dirname ''/home/user/b.br'' = ''/home/user''"
  "path_dirname ''/home/user/b2.txt'' = ''/home/user''"
  by (simp_all add: path_dirname_def)

lemma compress_example:
  "handleUserInput env exampleSession ''compress b.txt b.br'' =
     printProptForCommand (printCurrentWorkDir (exampleSession\<lparr>files :=
       exampleFiles @ [(''/home/user/b.br'', File (brotliCompress env [0xEF, 0xBF, 0xBD]))]\<rparr>))"
  by (simp add: handleUserInput_def tokens_compress exampleSession_def newFileManager_def
      dispatch_def COMMANDS_defs compressFile_def compressedContent_def ifFileOK_def
      ifAbsolutePathOK_def resolve_examples resolve_codec_examples dirname_examples
      dirname_codec_examples recode_FF lower_home_user startsWith_def path_isAbsolute_def
      unbraketString_def charIsBracket_def fs_defs exampleFiles_def Let_def)

text \<open>
  C5. The claim: for arbitrary content, decompressing what \<open>compress-file\<close> wrote gives
  the content back byte for byte, and the other way round. In the example session
  \<open>b.txt\<close> holds the single byte 0xFF. After \<open>compress b.txt b.br\<close> the file \<open>b.br\<close>
  holds what the compressor makes of the three bytes 0xEF 0xBF 0xBD, and with a codec
  whose decompressor inverts its compressor \<open>decompress b.br b2.txt\<close> then leaves those
  three bytes in \<open>b2.txt\<close>, not the byte 0xFF. No error is reported.
\<close>

theorem compress_then_decompress_rewrites_bytes:
  assumes "\<And>bytes. brotliDecompress env (brotliCompress env bytes) = Some bytes"
  shows "stat (files exampleSession) ''/home/user/b.txt'' = Some (File [0xFF])
       \<and> stat (files (handleUserInput env exampleSession ''compress b.txt b.br''))
             ''/home/user/b.br''
           = Some (File (brotliCompress env [0xEF, 0xBF, 0xBD]))
       \<and> stat (files (session env exampleSession
                          [''compress b.txt b.br'', ''decompress b.br b2.txt'']))
             ''/home/user/b2.txt''
           = Some (File [0xEF, 0xBF, 0xBD])
       \<and> exited (session env exampleSession
                     [''compress b.txt b.br'', ''decompress b.br b2.txt'']) = None"
proof -
  have b: "stat (files exampleSession) ''/home/user/b.txt'' = Some (File [0xFF])"
    by (simp add: exampleSession_def newFileManager_def exampleFiles_def stat_def)
  have c: "stat (files (handleUserInput env exampleSession ''compress b.txt b.br''))
             ''/home/user/b.br''
           = Some (File (brotliCompress env [0xEF, 0xBF, 0xBD]))"
    by (simp add: compress_example writer_defs Let_def stat_def exampleFiles_def)
  have d: "handleUserInput env
        (printProptForCommand (printCurrentWorkDir (exampleSession\<lparr>files :=
           exampleFiles @ [(''/home/user/b.br'', File (brotliCompress env [0xEF, 0xBF, 0xBD]))]\<rparr>)))
        ''decompress b.br b2.txt''
      = printProptForCommand (printCurrentWorkDir
          (printProptForCommand (printCurrentWorkDir (exampleSession\<lparr>files :=
             exampleFiles @ [(''/home/user/b.br'', File (brotliCompress env [0xEF, 0xBF, 0xBD])),
                             (''/home/user/b2.txt'', File [0xEF, 0xBF, 0xBD])]\<rparr>))))"
    by (simp add: handleUserInput_def tokens_decompress exampleSession_def newFileManager_def
        dispatch_def COMMANDS_defs decompressFile_def decompressedContent_def ifFileOK_def
        ifAbsolutePathOK_def resolve_codec_examples dirname_codec_examples lower_home_user
        startsWith_def path_isAbsolute_def unbraketString_def charIsBracket_def fs_defs
        exampleFiles_def writer_defs assms Let_def)
  have s: "session env exampleSession [''compress b.txt b.br'', ''decompress b.br b2.txt'']
      = printProptForCommand (printCurrentWorkDir
          (printProptForCommand (printCurrentWorkDir (exampleSession\<lparr>files :=
             exampleFiles @ [(''/home/user/b.br'', File (brotliCompress env [0xEF, 0xBF, 0xBD])),
                             (''/home/user/b2.txt'', File [0xEF, 0xBF, 0xBD])]\<rparr>))))"
    by (simp add: session_def compress_example d)
  have e: "stat (files (session env exampleSession
                          [''compress b.txt b.br'', ''decompress b.br b2.txt'']))
             ''/home/user/b2.txt''
           = Some (File [0xEF, 0xBF, 0xBD])"
    unfolding s by (simp add: writer_defs Let_def stat_def exampleFiles_def)
  have x: "exited (session env exampleSession
                     [''compress b.txt b.br'', ''decompress b.br b2.txt'']) = None"
    unfolding s by (simp add: writer_defs Let_def exampleSession_def newFileManager_def)
  show ?thesis
    using b c e x by (intro conjI)
qed

theorem compress_then_decompress_rewrites_bytes_witness:
  "(\<forall>bytes. brotliDecompress exampleHost (brotliCompress exampleHost bytes) = Some bytes)
   \<and> stat (files exampleSession) ''/home/user/b.txt'' = Some (File [0xFF])
   \<and> stat (files (session exampleHost exampleSession
                      [''compress b.txt b.br'', ''decompress b.br b2.txt'']))
         ''/home/user/b2.txt''
       = Some (File [0xEF, 0xBF, 0xBD])"
proof -
  have c: "\<And>bytes. brotliDecompress exampleHost (brotliCompress exampleHost bytes) = Some bytes"
    by (simp add: exampleHost_def)
  have "stat (files exampleSession) ''/home/user/b.txt'' = Some (File [0xFF])
      \<and> stat (files (session exampleHost exampleSession
                      [''compress b.txt b.br'', ''decompress b.br b2.txt'']))
         ''/home/user/b2.txt''
       = Some (File [0xEF, 0xBF, 0xBD])"
    using compress_then_decompress_rewrites_bytes [OF c] by blast
  with c show ?thesis
    by blast
qed

end
